theory Spec2Isabelle
  imports Complex_Main
begin

section \<open>JavaScript strings\<close>

text \<open>
  A JavaScript string is modelled as a \<open>string\<close> (a list of 8-bit characters); the
  model covers messages in the Latin-1 range, where case mapping touches the ASCII
  letters only. A character outside ASCII that the source writes in a literal (an
  emoji) is written as its UTF-8 bytes.
\<close>

definition is_upper :: "char \<Rightarrow> bool" where
  "is_upper c = (65 \<le> (of_char c :: int) \<and> (of_char c :: int) \<le> 90)"

definition is_lower :: "char \<Rightarrow> bool" where
  "is_lower c = (97 \<le> (of_char c :: int) \<and> (of_char c :: int) \<le> 122)"

definition is_digit :: "char \<Rightarrow> bool" where
  "is_digit c = (48 \<le> (of_char c :: int) \<and> (of_char c :: int) \<le> 57)"

definition is_alpha :: "char \<Rightarrow> bool" where
  "is_alpha c = (is_upper c \<or> is_lower c)"

text \<open>\<open>\w\<close> of a regular expression: \<open>[A-Za-z0-9_]\<close>.\<close>

definition is_word :: "char \<Rightarrow> bool" where
  "is_word c = (is_alpha c \<or> is_digit c \<or> c = CHR ''_'')"

text \<open>White space as \<open>trim\<close>, \<open>\s\<close> and \<open>parseFloat\<close> see it (tab, line feed,
  vertical tab, form feed, carriage return, space, no-break space).\<close>

definition is_space :: "char \<Rightarrow> bool" where
  "is_space c = ((of_char c :: int) \<in> {9, 10, 11, 12, 13, 32, 160})"

definition lower_char :: "char \<Rightarrow> char" where
  "lower_char c = (if is_upper c then char_of ((of_char c :: int) + 32) else c)"

definition upper_char :: "char \<Rightarrow> char" where
  "upper_char c = (if is_lower c then char_of ((of_char c :: int) - 32) else c)"

definition toLowerCase :: "string \<Rightarrow> string" where
  "toLowerCase s = map lower_char s"

definition toUpperCase :: "string \<Rightarrow> string" where
  "toUpperCase s = map upper_char s"

definition trim :: "string \<Rightarrow> string" where
  "trim s = rev (dropWhile is_space (rev (dropWhile is_space s)))"

primrec startsWith :: "string \<Rightarrow> string \<Rightarrow> bool" where
  "startsWith s [] = True"
| "startsWith s (p # ps) = (case s of [] \<Rightarrow> False | c # cs \<Rightarrow> c = p \<and> startsWith cs ps)"

text \<open>\<open>hay.includes(needle)\<close>.\<close>

primrec str_includes :: "string \<Rightarrow> string \<Rightarrow> bool" where
  "str_includes [] needle = (needle = [])"
| "str_includes (c # cs) needle = (startsWith (c # cs) needle \<or> str_includes cs needle)"

text \<open>\<open>s.substring(0, n)\<close>.\<close>

definition substring0 :: "string \<Rightarrow> nat \<Rightarrow> string" where
  "substring0 s n = take n s"

definition digit_char :: "int \<Rightarrow> char" where
  "digit_char n = char_of (48 + n mod 10)"

text \<open>The decimal text of a number that is not negative, as a template literal
  renders it.\<close>

function dec :: "int \<Rightarrow> string" where
  "dec n = (if n < 10 then [digit_char n] else dec (n div 10) @ [digit_char n])"
  by pat_completeness auto
termination
  by (relation "measure nat") auto

declare dec.simps [simp del]

text \<open>The decimal text of an integer.\<close>

definition dec_int :: "int \<Rightarrow> string" where
  "dec_int i = (if i < 0 then CHR ''-'' # dec (- i) else dec i)"

section \<open>JavaScript numbers\<close>





definition digits_value :: "string \<Rightarrow> int" where
  "digits_value ds = foldl (\<lambda>acc c. 10 * acc + ((of_char c :: int) - 48)) 0 ds"






section \<open>Dates\<close>

text \<open>
  A \<open>Date\<close> holds a time value in milliseconds since the epoch, or is invalid
  (\<open>None\<close>). A time value is valid within 8.64e15 ms of the epoch.
\<close>

type_synonym jsdate = "int option"

definition timeClip :: "int \<Rightarrow> jsdate" where
  "timeClip t = (if \<bar>t\<bar> \<le> 8640000000000000 then Some t else None)"

text \<open>\<open>a < b\<close> on two dates: false as soon as one is invalid.\<close>

definition date_lt :: "jsdate \<Rightarrow> jsdate \<Rightarrow> bool" where
  "date_lt a b = (case a of None \<Rightarrow> False
                  | Some x \<Rightarrow> (case b of None \<Rightarrow> False | Some y \<Rightarrow> x < y))"

definition date_le :: "jsdate \<Rightarrow> jsdate \<Rightarrow> bool" where
  "date_le a b = (case a of None \<Rightarrow> False
                  | Some x \<Rightarrow> (case b of None \<Rightarrow> False | Some y \<Rightarrow> x \<le> y))"

text \<open>The civil date (year, month, day) of a day number counted from the epoch, in UTC.\<close>

definition civil_from_days :: "int \<Rightarrow> int \<times> int \<times> int" where
  "civil_from_days z0 =
     (let z = z0 + 719468;
          era = z div 146097;
          doe = z mod 146097;
          yoe = (doe - doe div 1460 + doe div 36524 - doe div 146096) div 365;
          doy = doe - (365 * yoe + yoe div 4 - yoe div 100);
          mp = (5 * doy + 2) div 153;
          d = doy - (153 * mp + 2) div 5 + 1;
          m = (if mp < 10 then mp + 3 else mp - 9);
          y = yoe + era * 400 + (if m \<le> 2 then 1 else 0)
      in (y, m, d))"

definition pad2 :: "int \<Rightarrow> string" where
  "pad2 n = [digit_char (n div 10), digit_char n]"

definition pad_left :: "nat \<Rightarrow> string \<Rightarrow> string" where
  "pad_left w s = replicate (w - length s) (CHR ''0'') @ s"

text \<open>The year of \<open>toISOString\<close>: four digits from 0 to 9999, a sign and six digits
  otherwise.\<close>

definition iso_year :: "int \<Rightarrow> string" where
  "iso_year y =
     (if 0 \<le> y \<and> y \<le> 9999 then pad_left 4 (dec y)
      else if y < 0 then CHR ''-'' # pad_left 6 (dec (- y))
      else CHR ''+'' # pad_left 6 (dec y))"

text \<open>\<open>new Date(t).toISOString().split('T')[0]\<close> of a valid time value.\<close>

definition isoDate :: "int \<Rightarrow> string" where
  "isoDate t =
     (case civil_from_days (t div 86400000) of
        (y, m, d) \<Rightarrow> iso_year y @ ''-'' @ pad2 m @ ''-'' @ pad2 d)"

text \<open>An entry of the \<open>errors\<close> array of a provider error body.\<close>

record api_error =
  err_code :: "int option"
  err_title :: "string option"
  err_detail :: "string option"

text \<open>
  What the code asks of its host: the clock, the \<open>Date\<close> parser (implementation
  defined outside the ISO format), the local calendar, the locale, and the first entry
  of \<open>errors\<close> in a JSON text (\<open>None\<close> when \<open>JSON.parse\<close> throws or there is
  none). The clock does not advance during one call of the pipeline.
\<close>

record host =
  now :: int
  parseDate :: "string \<Rightarrow> jsdate"
  startOfDay :: "int \<Rightarrow> int"
  getDate :: "int \<Rightarrow> int"
  setDate :: "int \<Rightarrow> int \<Rightarrow> int"
  getFullYear :: "int \<Rightarrow> int"
  toLocaleString :: "jsdate \<Rightarrow> string"
  toLocaleDateString :: "jsdate \<Rightarrow> string"
  jsonFirstError :: "string \<Rightarrow> api_error option"

text \<open>\<open>d.setDate(d.getDate() + n)\<close> on a valid date.\<close>

definition addDays :: "host \<Rightarrow> int \<Rightarrow> int \<Rightarrow> int" where
  "addDays h t n = setDate h t (getDate h t + n)"

text \<open>\<open>const d = new Date(); d.setDate(d.getDate() + 1); d.toISOString().split('T')[0]\<close>:
  \<open>None\<close> is the \<open>RangeError\<close> of \<open>toISOString\<close> on an invalid date.\<close>

definition plusDaysIso :: "host \<Rightarrow> jsdate \<Rightarrow> int \<Rightarrow> string option" where
  "plusDaysIso h d n =
     (case d of None \<Rightarrow> None
      | Some t \<Rightarrow> map_option isoDate (timeClip (addDays h t n)))"

definition tomorrowIso :: "host \<Rightarrow> string option" where
  "tomorrowIso h = plusDaysIso h (timeClip (now h)) 1"

text \<open>\<open>const today = new Date(); today.setHours(0, 0, 0, 0)\<close>.\<close>

definition todayMidnight :: "host \<Rightarrow> jsdate" where
  "todayMidnight h = timeClip (startOfDay h (now h))"

section \<open>Conversation messages\<close>

datatype role = User | Assistant | System

record message =
  role :: role
  content :: string

text \<open>\<open>[...messages].reverse().find(msg => msg.role === 'user')\<close>.\<close>

definition lastUserMessage :: "message list \<Rightarrow> message option" where
  "lastUserMessage messages = find (\<lambda>msg. role msg = User) (rev messages)"

section \<open>Payloads of the travel-commerce provider\<close>

text \<open>
  The provider's JSON is read through the fields the code reads. A field that may be
  absent at run time is an \<open>option\<close>; \<open>None\<close> is \<open>undefined\<close>.
\<close>

record price_info =
  price_total :: "string option"
  price_grandTotal :: "string option"
  price_currency :: "string option"

record endpoint =
  at_time :: "string option"
  iataCode :: "string option"

record fare_detail =
  fare_cabin :: "string option"

record traveler_pricing =
  fareDetailsBySegment :: "fare_detail list option"

record segment =
  departure :: "endpoint option"
  arrival :: "endpoint option"
  carrierCode :: "string option"
  flight_number :: "string option"
  cabin :: "string option"
  travelerPricings :: "traveler_pricing list option"

record itinerary =
  segments :: "segment list option"
  duration :: "string option"

record flight_offer =
  itineraries :: "itinerary list option"
  price :: "price_info option"

record location_data =
  subType :: "string option"
  loc_iataCode :: "string option"
  geoCode :: "(rat \<times> rat) option"

record hotel_ref =
  hotelId :: "string option"

datatype description = DescText string | DescObject "string option"

record room_offer =
  room_price :: "price_info option"
  room_description :: "description option"
  cancellation_description :: "description option"

record hotel_info =
  hotel_name :: "string option"
  rating :: "string option"
  address_cityName :: "string option"
  amenities :: "string list option"

record hotel_offer =
  hotel :: "hotel_info option"
  offers :: "room_offer list option"

record pricing_data =
  pricing_flightOffers :: "flight_offer list option"

record order_data =
  order_id :: "string option"
  order_pnr :: "string option"
  order_flightOffers :: "flight_offer list option"
  order_travelers :: "string list option"
  order_ticketing_delay :: "string option"

text \<open>Traveler and contact details pass through the pipeline unread: their JSON text.\<close>

type_synonym traveler = string
type_synonym contact = string

record http_error =
  statusCode :: "int option"
  body_errors :: "api_error list option"
  body_json :: string

text \<open>A thrown value: its \<open>message\<close> and, for a rejection of the provider's SDK, its
  \<open>response\<close>.\<close>

datatype exn = Exn (message: "string option") (response: "http_error option")

definition Error :: "string \<Rightarrow> exn" where
  "Error m = Exn (Some m) None"

definition RangeError :: exn where
  "RangeError = Error ''Invalid time value''"

definition TypeError :: "string \<Rightarrow> exn" where
  "TypeError prop = Error (''Cannot read properties of undefined (reading '' @ prop @ '')'')"

text \<open>The network calls the adapter makes, with the parameters it sends.\<close>

datatype request =
    FlightOffersSearchGet string string string "string option" int string
  | FlightOffersPricingPost "flight_offer list" "traveler list option"
  | FlightOrdersPost flight_offer "traveler list option" "contact list option" "string option"
  | HotelsByCityGet string
  | HotelOffersByIdsGet string string string int
  | HotelOffersByGeoGet rat rat rat string string int
  | PointsOfInterestGet rat rat rat
  | LocationsGet string string
  | ChatCompletionsCreate "message list"

text \<open>
  The provider is an oracle: the answer to the \<open>n\<close>-th network call of a run, given
  the request. \<open>Inl\<close> is a rejected promise; \<open>None\<close> as data is a response with no
  \<open>data\<close>.
\<close>

record world =
  flightOffersSearch :: "nat \<Rightarrow> request \<Rightarrow> exn + flight_offer list option"
  flightOffersPricing :: "nat \<Rightarrow> request \<Rightarrow> exn + pricing_data option"
  flightOrders :: "nat \<Rightarrow> request \<Rightarrow> exn + order_data option"
  hotelsByCity :: "nat \<Rightarrow> request \<Rightarrow> exn + hotel_ref list option"
  hotelOffersSearch :: "nat \<Rightarrow> request \<Rightarrow> exn + hotel_offer list option"
  pointsOfInterest :: "nat \<Rightarrow> request \<Rightarrow> exn + string list option"
  locations :: "nat \<Rightarrow> request \<Rightarrow> exn + location_data list option"
  chatCompletions :: "nat \<Rightarrow> request \<Rightarrow> exn + string option"

section \<open>The provider adapter (AmadeusService)\<close>

record amadeus =
  has_client :: bool
  isInitialized :: bool

definition isClientInitialized :: "amadeus \<Rightarrow> bool" where
  "isClientInitialized svc = isInitialized svc"

definition not_initialized_message :: string where
  "not_initialized_message =
     ''Amadeus client is not initialized. Please check your credentials in the .env file.''"

definition checkInitialization :: "amadeus \<Rightarrow> exn + unit" where
  "checkInitialization svc =
     (if \<not> isInitialized svc \<or> \<not> has_client svc then Inl (Error not_initialized_message)
      else Inr ())"

text \<open>Every operation takes the log of the network calls made so far and returns it
  extended: a result, or the thrown value, and the log.\<close>

type_synonym 'a outcome = "(exn + 'a) \<times> request list"

definition status_is :: "exn \<Rightarrow> int \<Rightarrow> bool" where
  "status_is e n = (case response e of None \<Rightarrow> False | Some r \<Rightarrow> statusCode r = Some n)"

definition response_json :: "exn \<Rightarrow> string" where
  "response_json e = (case response e of None \<Rightarrow> [] | Some r \<Rightarrow> body_json r)"

text \<open>\<open>error.response?.body?.errors?.[0]\<close>.\<close>

definition first_api_error :: "exn \<Rightarrow> api_error option" where
  "first_api_error e =
     (case response e of None \<Rightarrow> None
      | Some r \<Rightarrow> (case body_errors r of None \<Rightarrow> None | Some [] \<Rightarrow> None
                   | Some (x # _) \<Rightarrow> Some x))"

definition searchFlights_catch :: "exn \<Rightarrow> exn" where
  "searchFlights_catch e =
     (if status_is e 400 then Error (''Bad request: '' @ response_json e)
      else if status_is e 401 then
        Error ''Authentication failed. Please check your Amadeus API credentials.''
      else if status_is e 404 then Error ''No flights found for the given criteria.''
      else e)"

text \<open>The departure date \<open>searchFlights\<close> sends: tomorrow when the given one parses to
  a date before today's midnight.\<close>

definition normalizeDeparture :: "host \<Rightarrow> string \<Rightarrow> exn + string" where
  "normalizeDeparture h departDate =
     (if date_lt (parseDate h departDate) (todayMidnight h) then
        (case tomorrowIso h of None \<Rightarrow> Inl RangeError | Some d \<Rightarrow> Inr d)
      else Inr departDate)"

text \<open>The return date it sends. \<open>depDate\<close> is the date parsed from the departure date
  as given: the code does not read it again after advancing the departure.\<close>

definition normalizeReturn :: "host \<Rightarrow> string \<Rightarrow> string option \<Rightarrow> exn + string option" where
  "normalizeReturn h departDate returnDate =
     (case returnDate of
        None \<Rightarrow> Inr None
      | Some r \<Rightarrow>
          if r = [] then Inr (Some r)
          else if date_lt (parseDate h r) (parseDate h departDate) then
            (case plusDaysIso h (parseDate h departDate) 7 of
               None \<Rightarrow> Inl RangeError
             | Some d \<Rightarrow> Inr (Some d))
          else Inr (Some r))"

definition searchFlights ::
  "world \<Rightarrow> host \<Rightarrow> amadeus \<Rightarrow> string \<Rightarrow> string \<Rightarrow> string \<Rightarrow> string option \<Rightarrow> int \<Rightarrow> string
     \<Rightarrow> request list \<Rightarrow> flight_offer list outcome" where
  "searchFlights w h svc originCode destinationCode departDate returnDate adults cabinClass tr =
     (case checkInitialization svc of
        Inl e \<Rightarrow> (Inl e, tr)
      | Inr _ \<Rightarrow>
          (case normalizeDeparture h departDate of
             Inl e \<Rightarrow> (Inl (searchFlights_catch e), tr)
           | Inr dep \<Rightarrow>
               (case normalizeReturn h departDate returnDate of
                  Inl e \<Rightarrow> (Inl (searchFlights_catch e), tr)
                | Inr ret \<Rightarrow>
                    (let req = FlightOffersSearchGet (toUpperCase originCode)
                                 (toUpperCase destinationCode) dep ret adults cabinClass
                     in case flightOffersSearch w (length tr) req of
                          Inl e \<Rightarrow> (Inl (searchFlights_catch e), tr @ [req])
                        | Inr None \<Rightarrow>
                            (Inl (searchFlights_catch (TypeError ''length'')), tr @ [req])
                        | Inr (Some data) \<Rightarrow> (Inr data, tr @ [req])))))"

definition confirmFlightPrice_catch :: "exn \<Rightarrow> exn" where
  "confirmFlightPrice_catch e =
     (if status_is e 400 \<and> (case first_api_error e of None \<Rightarrow> False
                              | Some a \<Rightarrow> err_code a = Some 37200) then
        Error (''Price has changed. '' @
               (case first_api_error e of None \<Rightarrow> ''undefined''
                | Some a \<Rightarrow> (case err_detail a of None \<Rightarrow> ''undefined'' | Some d \<Rightarrow> d)))
      else e)"

text \<open>\<open>response.data?.flightOffers?.[0]\<close>.\<close>

definition first_priced_offer :: "pricing_data option \<Rightarrow> flight_offer option" where
  "first_priced_offer d =
     (case d of None \<Rightarrow> None
      | Some p \<Rightarrow> (case pricing_flightOffers p of None \<Rightarrow> None | Some [] \<Rightarrow> None
                   | Some (x # _) \<Rightarrow> Some x))"

definition confirmFlightPrice ::
  "world \<Rightarrow> amadeus \<Rightarrow> flight_offer list \<Rightarrow> traveler list option \<Rightarrow> request list
     \<Rightarrow> pricing_data option outcome" where
  "confirmFlightPrice w svc flightOffers travelers tr =
     (case checkInitialization svc of
        Inl e \<Rightarrow> (Inl e, tr)
      | Inr _ \<Rightarrow>
          (let req = FlightOffersPricingPost flightOffers
                       (case travelers of None \<Rightarrow> None
                        | Some ts \<Rightarrow> if ts = [] then None else Some ts)
           in case flightOffersPricing w (length tr) req of
                Inl e \<Rightarrow> (Inl (confirmFlightPrice_catch e), tr @ [req])
              | Inr data \<Rightarrow>
                  (case first_priced_offer data of
                     None \<Rightarrow> (Inr data, tr @ [req])
                   | Some c \<Rightarrow>
                       (case price c of
                          None \<Rightarrow> (Inl (confirmFlightPrice_catch (TypeError ''total'')),
                                    tr @ [req])
                        | Some _ \<Rightarrow> (Inr data, tr @ [req])))))"

definition createFlightBooking_catch :: "exn \<Rightarrow> exn" where
  "createFlightBooking_catch e =
     (if status_is e 400 then
        (case first_api_error e of
           None \<Rightarrow> Error (''Booking failed: '' @ response_json e)
         | Some a \<Rightarrow>
             if err_code a = Some 37200 then
               Error ''Price has changed since confirmation. Please search again.''
             else if err_code a = Some 1398 then
               Error ''Invalid passenger information. Please check all details.''
             else if err_title a = Some ''INVALID FORMAT'' then
               Error ''Payment cannot be processed in self-service mode. Work with an airline consolidator.''
             else Error (''Booking failed: '' @ response_json e))
      else e)"

definition createFlightBooking ::
  "world \<Rightarrow> amadeus \<Rightarrow> flight_offer \<Rightarrow> traveler list option \<Rightarrow> contact list option
     \<Rightarrow> string option \<Rightarrow> request list \<Rightarrow> order_data option outcome" where
  "createFlightBooking w svc confirmedOffer travelers contacts remarks tr =
     (case checkInitialization svc of
        Inl e \<Rightarrow> (Inl e, tr)
      | Inr _ \<Rightarrow>
          (let req = FlightOrdersPost confirmedOffer travelers contacts remarks
           in case flightOrders w (length tr) req of
                Inl e \<Rightarrow> (Inl (createFlightBooking_catch e), tr @ [req])
              | Inr data \<Rightarrow> (Inr data, tr @ [req])))"

definition or_unknown :: "string option \<Rightarrow> string" where
  "or_unknown m = (case m of None \<Rightarrow> ''Unknown error'' | Some s \<Rightarrow> if s = [] then ''Unknown error'' else s)"

definition getHotelList :: "world \<Rightarrow> amadeus \<Rightarrow> string \<Rightarrow> request list \<Rightarrow> hotel_ref list outcome" where
  "getHotelList w svc cityCode tr =
     (case checkInitialization svc of
        Inl e \<Rightarrow> (Inl e, tr)
      | Inr _ \<Rightarrow>
          (let req = HotelsByCityGet (toUpperCase cityCode)
           in case hotelsByCity w (length tr) req of
                Inl e \<Rightarrow>
                  (Inl (if status_is e 404 then
                          Error (''No hotels found for city code: '' @ cityCode)
                        else Error (''Failed to get hotel list: '' @ or_unknown (message e))),
                   tr @ [req])
              | Inr None \<Rightarrow> (Inr [], tr @ [req])
              | Inr (Some data) \<Rightarrow> (Inr data, tr @ [req])))"

definition lookupCity ::
  "world \<Rightarrow> amadeus \<Rightarrow> string \<Rightarrow> string \<Rightarrow> request list \<Rightarrow> location_data list option outcome" where
  "lookupCity w svc keyword sub tr =
     (case checkInitialization svc of
        Inl e \<Rightarrow> (Inl e, tr)
      | Inr _ \<Rightarrow>
          (let req = LocationsGet keyword sub
           in case locations w (length tr) req of
                Inl e \<Rightarrow> (Inl e, tr @ [req])
              | Inr data \<Rightarrow> (Inr data, tr @ [req])))"

definition searchPointsOfInterest ::
  "world \<Rightarrow> amadeus \<Rightarrow> rat \<Rightarrow> rat \<Rightarrow> rat \<Rightarrow> request list \<Rightarrow> string list option outcome" where
  "searchPointsOfInterest w svc latitude longitude radius tr =
     (case checkInitialization svc of
        Inl e \<Rightarrow> (Inl e, tr)
      | Inr _ \<Rightarrow>
          (let req = PointsOfInterestGet latitude longitude radius
           in case pointsOfInterest w (length tr) req of
                Inl e \<Rightarrow> (Inl e, tr @ [req])
              | Inr data \<Rightarrow> (Inr data, tr @ [req])))"

text \<open>\<open>hotelIds.join(',')\<close>: an absent id joins as the empty string.\<close>

fun join_ids :: "string option list \<Rightarrow> string" where
  "join_ids [] = []"
| "join_ids [x] = (case x of None \<Rightarrow> [] | Some s \<Rightarrow> s)"
| "join_ids (x # xs) = (case x of None \<Rightarrow> [] | Some s \<Rightarrow> s) @ '','' @ join_ids xs"

definition unable_to_find_hotels :: "string \<Rightarrow> exn" where
  "unable_to_find_hotels cityCode =
     Error (''Unable to find hotels in '' @ cityCode @
            ''. Try a different city or check the city code.'')"

text \<open>The second attempt of \<open>searchHotels\<close>: the city's coordinates, then a search
  around them. Every failure in it is logged and swallowed.\<close>

definition searchHotels_byCoordinates ::
  "world \<Rightarrow> amadeus \<Rightarrow> string \<Rightarrow> string \<Rightarrow> string \<Rightarrow> int \<Rightarrow> rat \<Rightarrow> request list
     \<Rightarrow> hotel_offer list outcome" where
  "searchHotels_byCoordinates w svc cityCode checkInDate checkOutDate adults radius tr =
     (case lookupCity w svc cityCode ''CITY'' tr of
        (Inl e, tr1) \<Rightarrow> (Inl (unable_to_find_hotels cityCode), tr1)
      | (Inr cityDetails, tr1) \<Rightarrow>
          (case cityDetails of
             None \<Rightarrow> (Inl (unable_to_find_hotels cityCode), tr1)
           | Some [] \<Rightarrow> (Inl (unable_to_find_hotels cityCode), tr1)
           | Some (c # _) \<Rightarrow>
               (case geoCode c of
                  None \<Rightarrow> (Inl (unable_to_find_hotels cityCode), tr1)
                | Some (latitude, longitude) \<Rightarrow>
                    (let req = HotelOffersByGeoGet latitude longitude radius
                                 checkInDate checkOutDate adults
                     in case hotelOffersSearch w (length tr1) req of
                          Inl e \<Rightarrow> (Inl (unable_to_find_hotels cityCode), tr1 @ [req])
                        | Inr None \<Rightarrow> (Inr [], tr1 @ [req])
                        | Inr (Some data) \<Rightarrow> (Inr data, tr1 @ [req])))))"

definition searchHotels ::
  "world \<Rightarrow> amadeus \<Rightarrow> string \<Rightarrow> string \<Rightarrow> string \<Rightarrow> int \<Rightarrow> rat \<Rightarrow> request list
     \<Rightarrow> hotel_offer list outcome" where
  "searchHotels w svc cityCode checkInDate checkOutDate adults radius tr =
     (case checkInitialization svc of
        Inl e \<Rightarrow> (Inl e, tr)
      | Inr _ \<Rightarrow>
          (case getHotelList w svc cityCode tr of
             (Inl e, tr1) \<Rightarrow>
               searchHotels_byCoordinates w svc cityCode checkInDate checkOutDate adults radius tr1
           | (Inr hotelList, tr1) \<Rightarrow>
               (if hotelList = [] then
                  searchHotels_byCoordinates w svc cityCode checkInDate checkOutDate adults
                    radius tr1
                else
                  (let req = HotelOffersByIdsGet (join_ids (map hotelId (take 20 hotelList)))
                               checkInDate checkOutDate adults
                   in case hotelOffersSearch w (length tr1) req of
                        Inl e \<Rightarrow>
                          searchHotels_byCoordinates w svc cityCode checkInDate checkOutDate
                            adults radius (tr1 @ [req])
                      | Inr None \<Rightarrow> (Inr [], tr1 @ [req])
                      | Inr (Some data) \<Rightarrow> (Inr data, tr1 @ [req])))))"

section \<open>The booking controller\<close>










section \<open>The location resolver\<close>

text \<open>The table of \<open>getFallbackAirportCode\<close>, in the order the source writes it (the
  order in which the partial match walks it).\<close>

definition airportCodes :: "(string \<times> string) list" where
  "airportCodes =
     [(''london'', ''LHR''), (''new york'', ''JFK''), (''paris'', ''CDG''), (''tokyo'', ''HND''),
      (''sydney'', ''SYD''), (''dubai'', ''DXB''), (''madrid'', ''MAD''), (''berlin'', ''BER''),
      (''singapore'', ''SIN''), (''los angeles'', ''LAX''), (''san francisco'', ''SFO''),
      (''miami'', ''MIA''), (''chicago'', ''ORD''), (''toronto'', ''YYZ''),
      (''vancouver'', ''YVR''), (''rome'', ''FCO''), (''barcelona'', ''BCN''),
      (''amsterdam'', ''AMS''), (''frankfurt'', ''FRA''), (''munich'', ''MUC''),
      (''manchester'', ''MAN''), (''edinburgh'', ''EDI''), (''glasgow'', ''GLA''),
      (''delhi'', ''DEL''), (''mumbai'', ''BOM''), (''beijing'', ''PEK''),
      (''shanghai'', ''PVG''), (''san ramon'', ''OAK'')]"

definition is_alnum :: "char \<Rightarrow> bool" where
  "is_alnum c = (is_alpha c \<or> is_digit c)"

text \<open>The generated code: \<open>location.replace(/[^a-zA-Z0-9]/g, '').substring(0, 3).toUpperCase()\<close>.\<close>

definition generatedCode :: "string \<Rightarrow> string" where
  "generatedCode location = toUpperCase (substring0 (filter is_alnum location) 3)"

definition getFallbackAirportCode :: "string \<Rightarrow> string" where
  "getFallbackAirportCode location =
     (let locationLower = toLowerCase location in
      case map_of airportCodes locationLower of
        Some exactCode \<Rightarrow> exactCode
      | None \<Rightarrow>
          (case find (\<lambda>(city, code). str_includes locationLower city
                                     \<or> str_includes city locationLower) airportCodes of
             Some (city, code) \<Rightarrow> code
           | None \<Rightarrow> generatedCode location))"

definition countryToCity :: "(string \<times> string) list" where
  "countryToCity =
     [(''uk'', ''London''), (''usa'', ''New York''), (''us'', ''New York''), (''uae'', ''Dubai''),
      (''england'', ''London''), (''britain'', ''London''), (''great britain'', ''London''),
      (''united kingdom'', ''London''), (''united states'', ''New York''),
      (''australia'', ''Sydney''), (''canada'', ''Toronto''), (''china'', ''Beijing''),
      (''india'', ''Delhi''), (''japan'', ''Tokyo''), (''france'', ''Paris''),
      (''germany'', ''Berlin''), (''spain'', ''Madrid''), (''italy'', ''Rome'')]"

text \<open>A string that is neither \<open>undefined\<close> nor empty.\<close>

definition truthy :: "string option \<Rightarrow> bool" where
  "truthy x = (case x of None \<Rightarrow> False | Some s \<Rightarrow> s \<noteq> [])"

text \<open>\<open>cityLocation?.iataCode || airportLocation?.iataCode || locationData[0].iataCode\<close>
  on a non-empty array.\<close>

definition pickIataCode :: "location_data list \<Rightarrow> string option" where
  "pickIataCode locationData =
     (let cityCode = (case find (\<lambda>l. subType l = Some ''CITY'') locationData of
                        None \<Rightarrow> None | Some l \<Rightarrow> loc_iataCode l);
          airportCode = (case find (\<lambda>l. subType l = Some ''AIRPORT'') locationData of
                           None \<Rightarrow> None | Some l \<Rightarrow> loc_iataCode l)
      in if truthy cityCode then cityCode
         else if truthy airportCode then airportCode
         else loc_iataCode (hd locationData))"

definition getIATACode ::
  "world \<Rightarrow> amadeus \<Rightarrow> string \<Rightarrow> request list \<Rightarrow> string outcome" where
  "getIATACode w svc location0 tr =
     (if trim location0 = [] then
        (Inl (Error ''Invalid location: Location name is required''), tr)
      else
        let location = (case map_of countryToCity (toLowerCase (trim location0)) of
                          Some city \<Rightarrow> city | None \<Rightarrow> location0)
        in if \<not> isClientInitialized svc then (Inr (getFallbackAirportCode location), tr)
           else
             (case lookupCity w svc location ''CITY,AIRPORT'' tr of
                (Inl e, tr1) \<Rightarrow> (Inr (getFallbackAirportCode location), tr1)
              | (Inr None, tr1) \<Rightarrow> (Inr (getFallbackAirportCode location), tr1)
              | (Inr (Some []), tr1) \<Rightarrow> (Inr (getFallbackAirportCode location), tr1)
              | (Inr (Some locationData), tr1) \<Rightarrow>
                  (case pickIataCode locationData of
                     None \<Rightarrow> (Inr (getFallbackAirportCode location), tr1)
                   | Some code \<Rightarrow>
                       if code \<noteq> [] \<and> length code = 3 then (Inr code, tr1)
                       else (Inr (getFallbackAirportCode location), tr1))))"

text \<open>A location code: exactly three upper-case letters.\<close>

definition is_location_code :: "string \<Rightarrow> bool" where
  "is_location_code s = (length s = 3 \<and> list_all is_upper s)"

section \<open>Date normalization of the parameter extractor\<close>

definition is_ordinal_suffix :: "char \<Rightarrow> char \<Rightarrow> bool" where
  "is_ordinal_suffix a b =
     (toLowerCase [a, b] = ''st'' \<or> toLowerCase [a, b] = ''nd''
      \<or> toLowerCase [a, b] = ''rd'' \<or> toLowerCase [a, b] = ''th'')"

text \<open>
  \<open>s.replace(/([0-9]+)(st|nd|rd|th)/gi, '$1')\<close>: an ordinal suffix that follows a digit is
  dropped, and the scan resumes after it. The flag says whether the previous character
  belongs to a run of digits of the current match attempt.
\<close>

fun strip_ordinals :: "bool \<Rightarrow> string \<Rightarrow> string" where
  "strip_ordinals after_digit [] = []"
| "strip_ordinals after_digit [c] = [c]"
| "strip_ordinals after_digit (a # b # cs) =
     (if after_digit \<and> is_ordinal_suffix a b then strip_ordinals False cs
      else a # strip_ordinals (is_digit a) (b # cs))"

text \<open>\<open>/\d{4}$/\<close>: the last four characters are digits.\<close>

definition ends_with_year :: "string \<Rightarrow> bool" where
  "ends_with_year s = (4 \<le> length s \<and> list_all is_digit (take 4 (rev s)))"

text \<open>The text \<open>formatDate\<close> hands to the \<open>Date\<close> parser.\<close>

definition normalizedDate :: "host \<Rightarrow> string \<Rightarrow> string" where
  "normalizedDate h dateStr =
     (let n = trim (strip_ordinals False dateStr)
      in if ends_with_year n then n
         else n @ '' '' @ dec_int (getFullYear h (now h)))"

text \<open>The fallback of \<open>formatDate\<close>, in its past-date branch and in its \<open>catch\<close>:
  tomorrow's date. It throws only when the clock itself is out of range.\<close>

definition tomorrow_or_throw :: "host \<Rightarrow> exn + string" where
  "tomorrow_or_throw h = (case tomorrowIso h of None \<Rightarrow> Inl RangeError | Some d \<Rightarrow> Inr d)"

definition formatDate :: "host \<Rightarrow> string \<Rightarrow> exn + string" where
  "formatDate h dateStr =
     (if dateStr = [] then tomorrow_or_throw h
      else
        (case parseDate h (normalizedDate h dateStr) of
           None \<Rightarrow> tomorrow_or_throw h
         | Some t \<Rightarrow>
             if date_lt (Some t) (todayMidnight h) then tomorrow_or_throw h
             else (case timeClip t of None \<Rightarrow> tomorrow_or_throw h
                   | Some t' \<Rightarrow> Inr (isoDate t'))))"

section \<open>Regular expressions\<close>

text \<open>
  The regular expressions of the pipeline all carry the flag \<open>i\<close>: a literal and a
  character range match a character in either case. Matching is by backtracking, first
  alternative first and greedy quantifiers longest first, from the leftmost start, as
  the engine of the language does; so the first match found is the match it returns.
\<close>

datatype class_item = CRange char char | CChar char | CWord | CSpace | CDigit

datatype regex =
    Lit string
  | OneOf "class_item list"
  | Seq regex regex
  | Alt regex regex
  | Star regex
  | Plus regex
  | LazyPlus regex
  | Opt regex
  | Group nat regex
  | Bol
  | Eol
  | WordBoundary

text \<open>A position in the subject: the characters before it (nearest first), the
  characters from it on, and the groups captured so far.\<close>

type_synonym mstate = "string \<times> string \<times> (nat \<times> string) list"

definition st_before :: "mstate \<Rightarrow> string" where
  "st_before s = fst s"

definition st_rest :: "mstate \<Rightarrow> string" where
  "st_rest s = fst (snd s)"

definition st_caps :: "mstate \<Rightarrow> (nat \<times> string) list" where
  "st_caps s = snd (snd s)"

fun item_has :: "class_item \<Rightarrow> char \<Rightarrow> bool" where
  "item_has (CRange lo hi) c =
     (((of_char lo :: int) \<le> of_char (lower_char c) \<and> (of_char (lower_char c) :: int) \<le> of_char hi)
      \<or> ((of_char lo :: int) \<le> of_char (upper_char c) \<and> (of_char (upper_char c) :: int) \<le> of_char hi))"
| "item_has (CChar x) c = (lower_char c = lower_char x)"
| "item_has CWord c = is_word c"
| "item_has CSpace c = is_space c"
| "item_has CDigit c = is_digit c"

definition class_has :: "class_item list \<Rightarrow> char \<Rightarrow> bool" where
  "class_has items c = list_ex (\<lambda>i. item_has i c) items"

primrec lit_step :: "string \<Rightarrow> mstate \<Rightarrow> mstate option" where
  "lit_step [] s = Some s"
| "lit_step (p # ps) s =
     (case st_rest s of
        [] \<Rightarrow> None
      | c # cs \<Rightarrow> if lower_char c = lower_char p
                  then lit_step ps (c # st_before s, cs, st_caps s) else None)"

text \<open>\<open>\b\<close>: exactly one of the two neighbours is a word character.\<close>

definition at_word_boundary :: "mstate \<Rightarrow> bool" where
  "at_word_boundary s =
     ((case st_before s of [] \<Rightarrow> False | c # _ \<Rightarrow> is_word c)
      \<noteq> (case st_rest s of [] \<Rightarrow> False | c # _ \<Rightarrow> is_word c))"

definition set_cap :: "nat \<Rightarrow> mstate \<Rightarrow> mstate \<Rightarrow> mstate" where
  "set_cap n s0 s1 =
     (st_before s1, st_rest s1,
      (n, rev (take (length (st_before s1) - length (st_before s0)) (st_before s1)))
        # st_caps s1)"

text \<open>Iteration of a quantified body. An iteration has to consume a character, so
  the length of the rest bounds the number of iterations.\<close>

primrec star_greedy ::
  "((mstate \<Rightarrow> 'a option) \<Rightarrow> mstate \<Rightarrow> 'a option) \<Rightarrow> (mstate \<Rightarrow> 'a option) \<Rightarrow> nat \<Rightarrow> mstate
     \<Rightarrow> 'a option" where
  "star_greedy body k 0 s = k s"
| "star_greedy body k (Suc n) s =
     (case body (\<lambda>s'. if length (st_rest s') < length (st_rest s)
                       then star_greedy body k n s' else None) s of
        Some r \<Rightarrow> Some r
      | None \<Rightarrow> k s)"

primrec star_lazy ::
  "((mstate \<Rightarrow> 'a option) \<Rightarrow> mstate \<Rightarrow> 'a option) \<Rightarrow> (mstate \<Rightarrow> 'a option) \<Rightarrow> nat \<Rightarrow> mstate
     \<Rightarrow> 'a option" where
  "star_lazy body k 0 s = k s"
| "star_lazy body k (Suc n) s =
     (case k s of
        Some r \<Rightarrow> Some r
      | None \<Rightarrow> body (\<lambda>s'. if length (st_rest s') < length (st_rest s)
                             then star_lazy body k n s' else None) s)"

text \<open>The matcher, with the rest of the pattern as a continuation: \<open>None\<close> makes the
  caller backtrack.\<close>

primrec rmatch :: "regex \<Rightarrow> (mstate \<Rightarrow> 'a option) \<Rightarrow> mstate \<Rightarrow> 'a option" where
  "rmatch (Lit p) k s = (case lit_step p s of None \<Rightarrow> None | Some s' \<Rightarrow> k s')"
| "rmatch (OneOf items) k s =
     (case st_rest s of
        [] \<Rightarrow> None
      | c # cs \<Rightarrow> if class_has items c then k (c # st_before s, cs, st_caps s) else None)"
| "rmatch (Seq a b) k s = rmatch a (rmatch b k) s"
| "rmatch (Alt a b) k s = (case rmatch a k s of Some r \<Rightarrow> Some r | None \<Rightarrow> rmatch b k s)"
| "rmatch (Star a) k s = star_greedy (rmatch a) k (length (st_rest s)) s"
| "rmatch (Plus a) k s = rmatch a (\<lambda>s'. star_greedy (rmatch a) k (length (st_rest s')) s') s"
| "rmatch (LazyPlus a) k s = rmatch a (\<lambda>s'. star_lazy (rmatch a) k (length (st_rest s')) s') s"
| "rmatch (Opt a) k s = (case rmatch a k s of Some r \<Rightarrow> Some r | None \<Rightarrow> k s)"
| "rmatch (Group n a) k s = rmatch a (\<lambda>s'. k (set_cap n s s')) s"
| "rmatch Bol k s = (if st_before s = [] then k s else None)"
| "rmatch Eol k s = (if st_rest s = [] then k s else None)"
| "rmatch WordBoundary k s = (if at_word_boundary s then k s else None)"

text \<open>The leftmost match: the start moves right until the pattern matches.\<close>

primrec search :: "regex \<Rightarrow> string \<Rightarrow> string \<Rightarrow> mstate option" where
  "search r bef [] = rmatch r Some (bef, [], [])"
| "search r bef (c # cs) =
     (case rmatch r Some (bef, c # cs, []) of
        Some m \<Rightarrow> Some m
      | None \<Rightarrow> search r (c # bef) cs)"

text \<open>\<open>pattern.test(s)\<close> and \<open>s.match(pattern)\<close>; \<open>group m n\<close> is \<open>match[n]\<close>.\<close>

definition rx_test :: "regex \<Rightarrow> string \<Rightarrow> bool" where
  "rx_test r s = (search r [] s \<noteq> None)"

definition rx_match :: "regex \<Rightarrow> string \<Rightarrow> mstate option" where
  "rx_match r s = search r [] s"

definition group :: "mstate \<Rightarrow> nat \<Rightarrow> string option" where
  "group m n = map_of (st_caps m) n"

fun seq :: "regex list \<Rightarrow> regex" where
  "seq [] = Lit []"
| "seq [r] = r"
| "seq (r # rs) = Seq r (seq rs)"

fun alt :: "regex list \<Rightarrow> regex" where
  "alt [] = Lit []"
| "alt [r] = r"
| "alt (r # rs) = Alt r (alt rs)"

text \<open>\<open>r{n}\<close> and \<open>r{lo,hi}\<close>.\<close>

primrec rep_exact :: "nat \<Rightarrow> regex \<Rightarrow> regex" where
  "rep_exact 0 r = Lit []"
| "rep_exact (Suc n) r = Seq r (rep_exact n r)"

primrec rep_upto :: "nat \<Rightarrow> regex \<Rightarrow> regex" where
  "rep_upto 0 r = Lit []"
| "rep_upto (Suc n) r = Opt (Seq r (rep_upto n r))"

definition rep_range :: "nat \<Rightarrow> nat \<Rightarrow> regex \<Rightarrow> regex" where
  "rep_range lo hi r = Seq (rep_exact lo r) (rep_upto (hi - lo) r)"

definition spaces :: regex where
  "spaces = Plus (OneOf [CSpace])"

definition letters_spaces :: regex where
  "letters_spaces = Plus (OneOf [CRange (CHR ''A'') (CHR ''Z''), CRange (CHR ''a'') (CHR ''z''), CSpace])"

definition word_spaces :: regex where
  "word_spaces = Plus (OneOf [CWord, CSpace])"

section \<open>The intent classifier\<close>

datatype intent_type = Flight | Hotel | PointOfInterest | Itinerary | General | Booking

record travel_intent =
  intentType :: intent_type
  confidence :: rat
  searchText :: string
  requiresAmadeusApi :: bool

definition greetingPatterns :: "regex list" where
  "greetingPatterns =
     [seq [Bol, Lit ''hi'', Eol], seq [Bol, Lit ''hello'', Eol], seq [Bol, Lit ''hey'', Eol],
      seq [Bol, Lit ''greetings'', Eol],
      seq [Bol, Lit ''what can you do''], seq [Bol, Lit ''help me''],
      seq [Bol, Lit ''how does this work''],
      seq [Bol, Lit ''what is this''], seq [Bol, Lit ''tell me about yourself'']]"

definition flightPatterns :: "regex list" where
  "flightPatterns =
     [seq [WordBoundary, alt [Lit ''find'', Lit ''search'', Lit ''looking for'', Lit ''need''],
           spaces, Opt (seq [Lit ''a'', spaces]), Lit ''flight'', Opt (Lit ''s''), WordBoundary],
      seq [WordBoundary, alt [Lit ''book'', Lit ''get''],
           spaces, Opt (seq [Lit ''a'', spaces]), Lit ''flight'', Opt (Lit ''s''), WordBoundary],
      seq [WordBoundary, Lit ''fly'', Opt (Lit ''ing''), spaces, Lit ''from'', spaces,
           Group 1 word_spaces, spaces, Lit ''to'', spaces, Group 2 word_spaces, WordBoundary],
      seq [WordBoundary, Lit ''flight'', Opt (Lit ''s''), spaces,
           alt [Lit ''from'', Lit ''between''], spaces, Group 1 word_spaces, spaces,
           alt [Lit ''to'', Lit ''and''], spaces, Group 2 word_spaces, WordBoundary],
      seq [WordBoundary, Lit ''air'', alt [Lit ''plane'', Lit ''port'', Lit ''line''], spaces,
           alt [seq [Lit ''ticket'', Opt (Lit ''s'')], seq [Lit ''flight'', Opt (Lit ''s'')]],
           WordBoundary]]"

definition hotelPatterns :: "regex list" where
  "hotelPatterns =
     [seq [WordBoundary, alt [Lit ''find'', Lit ''search'', Lit ''looking for'', Lit ''need''],
           spaces, Opt (seq [Lit ''a'', spaces]), Lit ''hotel'', Opt (Lit ''s''), WordBoundary],
      seq [WordBoundary, alt [Lit ''book'', Lit ''get''],
           spaces, Opt (seq [Lit ''a'', spaces]), Lit ''hotel'', Opt (Lit ''s''), WordBoundary],
      seq [WordBoundary, alt [Lit ''stay'', Lit ''accommodation'', Lit ''room''], spaces,
           Lit ''in'', spaces, Group 1 word_spaces, WordBoundary],
      seq [WordBoundary, Lit ''hotel'', Opt (Lit ''s''), spaces,
           alt [Lit ''in'', Lit ''near'', Lit ''at''], spaces, Group 1 word_spaces,
           WordBoundary]]"

definition bookingPatterns :: "regex list" where
  "bookingPatterns =
     [seq [WordBoundary, alt [Lit ''book'', Lit ''reserve'', Lit ''purchase''], spaces,
           Opt (seq [Lit ''a'', spaces]),
           alt [seq [Lit ''ticket'', Opt (Lit ''s'')], seq [Lit ''seat'', Opt (Lit ''s'')],
                seq [Lit ''flight'', Opt (Lit ''s'')]],
           WordBoundary],
      seq [WordBoundary, Lit ''make'', spaces, Opt (seq [Lit ''a'', spaces]),
           alt [Lit ''reservation'', Lit ''booking''], WordBoundary],
      seq [WordBoundary, Lit ''buy'', spaces, Opt (seq [Lit ''a'', spaces]),
           alt [seq [Lit ''ticket'', Opt (Lit ''s'')], seq [Lit ''seat'', Opt (Lit ''s'')]],
           WordBoundary]]"

text \<open>\<open>for (const pattern of patterns) if (pattern.test(s)) ...\<close>.\<close>

definition any_test :: "regex list \<Rightarrow> string \<Rightarrow> bool" where
  "any_test patterns s = list_ex (\<lambda>pattern. rx_test pattern s) patterns"

definition intent :: "intent_type \<Rightarrow> rat \<Rightarrow> string \<Rightarrow> travel_intent" where
  "intent ty c userMessage =
     \<lparr> intentType = ty, confidence = c, searchText = userMessage, requiresAmadeusApi = True \<rparr>"

definition detectTravelIntent :: "string \<Rightarrow> travel_intent option" where
  "detectTravelIntent userMessage =
     (if trim userMessage = [] then None
      else
        let lowerMsg = toLowerCase userMessage in
        if any_test greetingPatterns lowerMsg then None
        else if any_test flightPatterns lowerMsg then Some (intent Flight (9 / 10) userMessage)
        else if any_test hotelPatterns lowerMsg then Some (intent Hotel (8 / 10) userMessage)
        else if any_test bookingPatterns lowerMsg then
          Some (intent Booking (95 / 100) userMessage)
        else if str_includes lowerMsg ''flight''
                \<and> (str_includes lowerMsg ''from'' \<or> str_includes lowerMsg ''to'') then
          Some (intent Flight (7 / 10) userMessage)
        else if str_includes lowerMsg ''hotel''
                \<and> (str_includes lowerMsg ''in'' \<or> str_includes lowerMsg ''at''
                     \<or> str_includes lowerMsg ''near'') then
          Some (intent Hotel (7 / 10) userMessage)
        else None)"

section \<open>The parameter extractor\<close>

record flight_params =
  origin :: "string option"
  destination :: "string option"
  departDate :: "string option"

definition locationPatterns :: "regex list" where
  "locationPatterns =
     [seq [alt [Lit ''from'', Lit ''between''], spaces, Group 1 letters_spaces, spaces,
           Lit ''to'', spaces, Group 2 letters_spaces],
      seq [Group 1 letters_spaces, spaces, Lit ''to'', spaces, Group 2 letters_spaces]]"

definition countryAbbreviations :: "(string \<times> string) list" where
  "countryAbbreviations =
     [(''uk'', ''London''), (''usa'', ''New York''), (''us'', ''New York''), (''uae'', ''Dubai''),
      (''england'', ''London''), (''australia'', ''Sydney''), (''canada'', ''Toronto''),
      (''china'', ''Beijing''), (''india'', ''Delhi''), (''japan'', ''Tokyo'')]"

definition letters :: regex where
  "letters = Plus (OneOf [CRange (CHR ''A'') (CHR ''Z''), CRange (CHR ''a'') (CHR ''z'')])"

definition digit :: regex where
  "digit = OneOf [CDigit]"

definition ordinal_suffix :: regex where
  "ordinal_suffix = Opt (alt [Lit ''st'', Lit ''nd'', Lit ''rd'', Lit ''th''])"

definition datePatterns :: "regex list" where
  "datePatterns =
     [seq [alt [Lit ''on'', Lit ''for''], spaces,
           Group 1 (seq [letters, spaces, rep_range 1 2 digit, ordinal_suffix,
                         Opt (seq [spaces, rep_exact 4 digit])])],
      Group 1 (seq [rep_range 1 2 digit, ordinal_suffix, spaces, letters,
                    Opt (seq [spaces, rep_exact 4 digit])]),
      Group 1 (seq [letters, spaces, rep_range 1 2 digit, ordinal_suffix,
                    Opt (seq [spaces, rep_exact 4 digit])])]"

text \<open>The first pattern of the list that matches, with its match.\<close>

primrec first_match :: "regex list \<Rightarrow> string \<Rightarrow> mstate option" where
  "first_match [] s = None"
| "first_match (pattern # rest) s =
     (case rx_match pattern s of Some m \<Rightarrow> Some m | None \<Rightarrow> first_match rest s)"

text \<open>\<open>match[n].trim()\<close>.\<close>

definition trimmed_group :: "mstate \<Rightarrow> nat \<Rightarrow> string option" where
  "trimmed_group m n = map_option trim (group m n)"

text \<open>A place name that is a key of the country table is replaced by its city; an
  absent or empty name is left as it is.\<close>

definition replaceCountry :: "string option \<Rightarrow> string option" where
  "replaceCountry place =
     (if truthy place then
        (case map_of countryAbbreviations (toLowerCase (the place)) of
           Some city \<Rightarrow> Some city
         | None \<Rightarrow> place)
      else place)"

definition extractFlightParams :: "string \<Rightarrow> flight_params" where
  "extractFlightParams msg =
     (let loc = first_match locationPatterns msg;
          dat = first_match datePatterns msg
      in \<lparr> origin = replaceCountry (case loc of None \<Rightarrow> None | Some m \<Rightarrow> trimmed_group m 1),
           destination = replaceCountry (case loc of None \<Rightarrow> None | Some m \<Rightarrow> trimmed_group m 2),
           departDate = (case dat of None \<Rightarrow> None | Some m \<Rightarrow> trimmed_group m 1) \<rparr>)"

section \<open>Texts and dates in replies\<close>

text \<open>A value inside a template literal: \<open>undefined\<close> is written out.\<close>

definition undef :: "string option \<Rightarrow> string" where
  "undef x = (case x of None \<Rightarrow> ''undefined'' | Some s \<Rightarrow> s)"

text \<open>\<open>new Date(x)\<close> of a text that may be absent.\<close>

definition date_of :: "host \<Rightarrow> string option \<Rightarrow> jsdate" where
  "date_of h x = (case x of None \<Rightarrow> None | Some s \<Rightarrow> parseDate h s)"

section \<open>The response formatter: flights\<close>

text \<open>The remainder of the language: it has the sign of the dividend.\<close>

definition js_rem :: "int \<Rightarrow> int \<Rightarrow> int" where
  "js_rem a b = (if 0 \<le> a then a mod b else - ((- a) mod b))"

definition calculateTotalJourneyTime :: "host \<Rightarrow> segment list \<Rightarrow> exn + string" where
  "calculateTotalJourneyTime h segs =
     (case segs of
        [] \<Rightarrow> Inr []
      | first # _ \<Rightarrow>
          (case departure first of
             None \<Rightarrow> Inl (TypeError ''at'')
           | Some dep \<Rightarrow>
               (case arrival (last segs) of
                  None \<Rightarrow> Inl (TypeError ''at'')
                | Some arr \<Rightarrow>
                    (case date_of h (at_time arr) of
                       None \<Rightarrow> Inr ''NaNh NaNm''
                     | Some a \<Rightarrow>
                         (case date_of h (at_time dep) of
                            None \<Rightarrow> Inr ''NaNh NaNm''
                          | Some d \<Rightarrow>
                              Inr (dec_int ((a - d) div 3600000) @ ''h '' @
                                   dec_int (js_rem (a - d) 3600000 div 60000) @ ''m''))))))"

text \<open>\<open>xs.join(', ')\<close> of texts that may be absent.\<close>

fun join_comma :: "string option list \<Rightarrow> string" where
  "join_comma [] = []"
| "join_comma [x] = (case x of None \<Rightarrow> [] | Some s \<Rightarrow> s)"
| "join_comma (x # xs) = (case x of None \<Rightarrow> [] | Some s \<Rightarrow> s) @ '', '' @ join_comma xs"

text \<open>The line of stops; \<open>None\<close> is the \<open>TypeError\<close> of a segment without arrival.\<close>

definition stopsLine :: "segment list \<Rightarrow> string option" where
  "stopsLine segs =
     (if length segs > 1 then
        (if list_all (\<lambda>seg. arrival seg \<noteq> None) segs then
           Some ([CHR 0xE2, CHR 0x9C, CHR 0x88, CHR 0xEF, CHR 0xB8, CHR 0x8F] @ '' Stops: '' @
                 dec (int (length segs) - 1) @ '' ('' @
                 join_comma (map (\<lambda>seg. iataCode (the (arrival seg))) (butlast segs)) @ '')'' @
                 [CHR 0x0A])
         else None)
      else Some ([CHR 0xE2, CHR 0x9C, CHR 0x88, CHR 0xEF, CHR 0xB8, CHR 0x8F] @ '' Direct Flight'' @
                 [CHR 0x0A]))"

definition flightNumberLine :: "segment \<Rightarrow> string" where
  "flightNumberLine first =
     (if truthy (carrierCode first) \<and> truthy (flight_number first) then
        [CHR 0xF0, CHR 0x9F, CHR 0x94, CHR 0xA2] @ '' Flight: '' @ the (carrierCode first) @
        the (flight_number first) @ [CHR 0x0A]
      else [])"

text \<open>\<open>firstSegment.travelerPricings?.[0]?.fareDetailsBySegment?.[0]?.cabin\<close>.\<close>

definition pricedCabin :: "segment \<Rightarrow> string option" where
  "pricedCabin first =
     (case travelerPricings first of
        Some (tp # _) \<Rightarrow>
          (case fareDetailsBySegment tp of Some (fd # _) \<Rightarrow> fare_cabin fd | _ \<Rightarrow> None)
      | _ \<Rightarrow> None)"

definition cabinClassOf :: "segment \<Rightarrow> string" where
  "cabinClassOf first =
     (if truthy (cabin first) then the (cabin first)
      else if truthy (pricedCabin first) then the (pricedCabin first)
      else ''Economy'')"

text \<open>\<open>offer?.itineraries?.[0]?.segments\<close>.\<close>

definition firstItinerarySegments :: "flight_offer \<Rightarrow> segment list option" where
  "firstItinerarySegments offer =
     (case itineraries offer of Some (it # _) \<Rightarrow> segments it | _ \<Rightarrow> None)"

text \<open>
  What one round of the loop appends for \<open>flightOffers[i]\<close>. An offer without segments
  is skipped. A \<open>TypeError\<close> on a missing field leaves the lines appended before it and
  ends the round.
\<close>

definition flightOption :: "host \<Rightarrow> nat \<Rightarrow> flight_offer \<Rightarrow> string" where
  "flightOption h i offer =
     (case firstItinerarySegments offer of
        None \<Rightarrow> []
      | Some segs \<Rightarrow>
          (''**Option '' @ dec (int i + 1) @ ''**'' @ [CHR 0x0A]) @
          (case segs of
             [] \<Rightarrow> []
           | first # _ \<Rightarrow>
               (case departure first of
                  None \<Rightarrow> []
                | Some dep \<Rightarrow>
                    ([CHR 0xF0, CHR 0x9F, CHR 0x9B, CHR 0xAB] @ '' Departure: '' @
                     toLocaleString h (date_of h (at_time dep)) @ '' from '' @ undef (iataCode dep) @ [CHR 0x0A]) @
                    (case arrival (last segs) of
                       None \<Rightarrow> []
                     | Some arr \<Rightarrow>
                         ([CHR 0xF0, CHR 0x9F, CHR 0x9B, CHR 0xAC] @ '' Arrival: '' @
                          toLocaleString h (date_of h (at_time arr)) @ '' at '' @ undef (iataCode arr) @ [CHR 0x0A]) @
                         (case calculateTotalJourneyTime h segs of
                            Inl e \<Rightarrow> []
                          | Inr totalDuration \<Rightarrow>
                              ([CHR 0xE2, CHR 0x8F, CHR 0xB1, CHR 0xEF, CHR 0xB8, CHR 0x8F] @ '' Duration: '' @
                               totalDuration @ [CHR 0x0A]) @
                              (case stopsLine segs of
                                 None \<Rightarrow> []
                               | Some stops \<Rightarrow>
                                   stops @ flightNumberLine first @
                                   (case price offer of
                                      None \<Rightarrow> []
                                    | Some p \<Rightarrow>
                                        ([CHR 0xF0, CHR 0x9F, CHR 0x92, CHR 0xB0] @ '' Price: '' @ undef (price_currency p) @ '' '' @
                                         undef (if truthy (price_grandTotal p) then price_grandTotal p else price_total p) @
                                         [CHR 0x0A]) @
                                        ([CHR 0xF0, CHR 0x9F, CHR 0xAA, CHR 0x91] @ '' Cabin: '' @ cabinClassOf first @ [CHR 0x0A]) @
                                        [CHR 0x0A])))))))"

text \<open>The loop \<open>for (let i = 0; i < maxFlights; i++)\<close>, from index \<open>i\<close> on.\<close>

primrec flightOptions :: "host \<Rightarrow> nat \<Rightarrow> flight_offer list \<Rightarrow> string" where
  "flightOptions h i [] = []"
| "flightOptions h i (offer # rest) = flightOption h i offer @ flightOptions h (Suc i) rest"

definition formatFlightResponse ::
  "host \<Rightarrow> flight_offer list \<Rightarrow> string \<Rightarrow> string \<Rightarrow> string \<Rightarrow> string" where
  "formatFlightResponse h flightOffers orig dest date =
     (if flightOffers = [] then
        ''I couldn'' @ [CHR 0x27] @ ''t find any flights from '' @ orig @ '' to '' @ dest @
        '' on '' @ date @ ''. Would you like to try different dates or locations?''
      else
        let maxFlights = min 5 (length flightOffers) in
        (''I found '' @ dec (int (length flightOffers)) @ '' flight option'' @
         (if length flightOffers > 1 then ''s'' else []) @ '' from '' @ orig @ '' to '' @ dest @
         '' on '' @ date @ '':'' @ [CHR 0x0A, CHR 0x0A]) @
        flightOptions h 0 (take maxFlights flightOffers) @
        (if length flightOffers > maxFlights then
           ''... and '' @ dec (int (length flightOffers - maxFlights)) @ '' more options available.'' @
           [CHR 0x0A, CHR 0x0A]
         else []) @
        ''Would you like to book any of these flights or see more options?'')"

section \<open>The flight intent handler\<close>

text \<open>\<open>errorDetail\<close>: when the message of the error carries the JSON of a provider
  error, the detail (or else the title) of its first entry.\<close>

definition errorDetailOf :: "host \<Rightarrow> exn \<Rightarrow> string" where
  "errorDetailOf h e =
     (case message e of
        None \<Rightarrow> []
      | Some m \<Rightarrow>
          if m \<noteq> [] \<and> str_includes m (''{'' @ [CHR 0x22] @ ''errors'' @ [CHR 0x22]) then
            (case jsonFirstError h (dropWhile (\<lambda>c. c \<noteq> CHR ''{'') m) of
               None \<Rightarrow> []
             | Some a \<Rightarrow>
                 if truthy (err_detail a) then the (err_detail a)
                 else if truthy (err_title a) then the (err_title a)
                 else [])
          else [])"

definition message_includes :: "exn \<Rightarrow> string \<Rightarrow> bool" where
  "message_includes e needle =
     (case message e of None \<Rightarrow> False | Some m \<Rightarrow> str_includes m needle)"

text \<open>The reply of the inner \<open>catch\<close> of \<open>handleFlightIntent\<close>.\<close>

definition flightSearchFailed :: "host \<Rightarrow> flight_params \<Rightarrow> exn \<Rightarrow> string" where
  "flightSearchFailed h params e =
     (let errorDetail = errorDetailOf h e in
      if message_includes e ''Authentication failed'' then
        ''The flight search service is not properly configured. Please check your '' @
        ''Amadeus API credentials.''
      else if message_includes e ''No flights found'' then
        ''I couldn'' @ [CHR 0x27] @ ''t find any flights from '' @ undef (origin params) @
        '' to '' @ undef (destination params) @ '' on '' @ undef (departDate params) @
        ''. This could be because:'' @ [CHR 0x0A, CHR 0x0A] @
        ''1. The route might not be available on that date'' @ [CHR 0x0A] @
        ''2. The airports might be too small or the cities incorrectly identified'' @ [CHR 0x0A] @
        ''3. The date might be too far in the future or already passed'' @ [CHR 0x0A, CHR 0x0A] @
        ''Would you like to try:'' @ [CHR 0x0A] @ ''- Different dates?'' @ [CHR 0x0A] @
        ''- Nearby airports?'' @ [CHR 0x0A] @ ''- A different route?''
      else if str_includes errorDetail ''INVALID FORMAT''
              \<or> str_includes errorDetail ''must be a 3-letter code'' then
        ''I'' @ [CHR 0x27] @
        ''m having trouble finding the airport codes for your cities. Can you prov'' @
        ''ide more specific information?'' @ [CHR 0x0A, CHR 0x0A] @ ''For example, instead of '' @
        [CHR 0x22] @ ''UK'' @ [CHR 0x22] @ '' as a destination, please specify a city like '' @
        [CHR 0x22] @ ''London'' @ [CHR 0x22] @ '', '' @ [CHR 0x22] @ ''Manchester'' @ [CHR 0x22] @
        '', or '' @ [CHR 0x22] @ ''Edinburgh'' @ [CHR 0x22] @ ''.'' @ [CHR 0x0A, CHR 0x0A] @
        ''Similarly, for the US, please specify cities like '' @ [CHR 0x22] @ ''New York'' @
        [CHR 0x22] @ '', '' @ [CHR 0x22] @ ''Los Angeles'' @ [CHR 0x22] @ '', or '' @ [CHR 0x22] @
        ''Chicago'' @ [CHR 0x22] @ '' rather than just '' @ [CHR 0x22] @ ''USA'' @ [CHR 0x22] @
        ''.''
      else if errorDetail \<noteq> [] then
        ''I encountered an issue while searching for flights: '' @ errorDetail @
        ''. Please try again with more specific locations.''
      else
        ''I encountered an issue while searching for flights. '' @
        (if truthy (message e) then the (message e)
         else ''Please try again with specific airport codes if possible.''))"

definition flightServiceUnavailable :: string where
  "flightServiceUnavailable =
     ''I'' @ [CHR 0x27] @
     ''d be happy to help you find flights, but the flight search service is cu'' @
     ''rrently unavailable. '' @ [CHR 0x0A, CHR 0x0A] @ ''Please ensure:'' @ [CHR 0x0A] @
     ''1. Amadeus API credentials are set in your .env file:'' @ [CHR 0x0A] @
     ''   - AMADEUS_CLIENT_ID=your_client_id'' @ [CHR 0x0A] @
     ''   - AMADEUS_CLIENT_SECRET=your_client_secret'' @ [CHR 0x0A, CHR 0x0A] @
     ''2. The credentials are valid for the Amadeus test environment.'' @ [CHR 0x0A, CHR 0x0A] @
     ''Once configured, I'' @ [CHR 0x27] @
     ''ll be able to search for real flight options for you.''"

definition flightHandlerFailed :: string where
  "flightHandlerFailed =
     ''I encountered an issue while searching for flights. Please try again wit'' @
     ''h more specific details.''"

definition askForCities :: string where
  "askForCities =
     ''I'' @ [CHR 0x27] @
     ''d be happy to search for flights for you. Please provide both the depart'' @
     ''ure city and destination city. For example: '' @ [CHR 0x27] @
     ''Find flights from New York to London on June 15th'' @ [CHR 0x27]"

definition askForDepartureDate :: "flight_params \<Rightarrow> string" where
  "askForDepartureDate params =
     ''I found that you want to travel from '' @ undef (origin params) @ '' to '' @
     undef (destination params) @ ''. What date would you like to depart?''"

definition handleFlightIntent ::
  "world \<Rightarrow> host \<Rightarrow> amadeus \<Rightarrow> message list \<Rightarrow> request list \<Rightarrow> string \<times> request list" where
  "handleFlightIntent w h svc messages tr =
     (case lastUserMessage messages of
        None \<Rightarrow> (''Please provide details about your flight search.'', tr)
      | Some userMessage \<Rightarrow>
          if \<not> isClientInitialized svc then (flightServiceUnavailable, tr)
          else
            let params = extractFlightParams (content userMessage) in
            if \<not> truthy (origin params) \<or> \<not> truthy (destination params) then
              (askForCities, tr)
            else if \<not> truthy (departDate params) then (askForDepartureDate params, tr)
            else
              (case getIATACode w svc (the (origin params)) tr of
                 (Inl e, tr1) \<Rightarrow> (flightHandlerFailed, tr1)
               | (Inr originCode, tr1) \<Rightarrow>
                   (case getIATACode w svc (the (destination params)) tr1 of
                      (Inl e, tr2) \<Rightarrow> (flightHandlerFailed, tr2)
                    | (Inr destinationCode, tr2) \<Rightarrow>
                        (case formatDate h (the (departDate params)) of
                           Inl e \<Rightarrow> (flightHandlerFailed, tr2)
                         | Inr formattedDate \<Rightarrow>
                             if originCode = [] \<or> destinationCode = [] then
                               (flightSearchFailed h params (Error ''Invalid airport codes''), tr2)
                             else
                               (case searchFlights w h svc originCode destinationCode
                                       formattedDate None 1 ''ECONOMY'' tr2 of
                                  (Inl e, tr3) \<Rightarrow> (flightSearchFailed h params e, tr3)
                                | (Inr flightOffers, tr3) \<Rightarrow>
                                    (formatFlightResponse h flightOffers (the (origin params))
                                       (the (destination params)) (the (departDate params)),
                                     tr3))))))"

section \<open>The hotel intent handler\<close>

definition city_chars :: regex where
  "city_chars = OneOf [CRange (CHR ''A'') (CHR ''Z''), CRange (CHR ''a'') (CHR ''z''), CSpace,
                       CChar (CHR '','')]"

definition cityStatePattern :: regex where
  "cityStatePattern =
     seq [alt [Lit ''in'', Lit ''at'', Lit ''near'', Lit ''to''], spaces,
          Group 1 (seq [LazyPlus city_chars,
                        Opt (seq [spaces, Lit ''in'', spaces, letters_spaces])]),
          alt [seq [spaces, Lit ''from''], seq [spaces, Lit ''on''], seq [spaces, Lit ''for''],
               Eol]]"

definition generalLocationPattern :: regex where
  "generalLocationPattern =
     seq [alt [Lit ''hotel'', Lit ''stay'', Lit ''room'', Lit ''accommodation''],
          Opt (alt [seq [spaces, Lit ''in''], seq [spaces, Lit ''at''], seq [spaces, Lit ''near''],
                    seq [spaces, Lit ''to'']]),
          spaces, Group 1 (Plus city_chars)]"

definition fallbackPattern :: regex where
  "fallbackPattern =
     Group 1 (seq [letters,
                   Opt (seq [Star (OneOf [CSpace]), Lit '','', Star (OneOf [CSpace]), letters])])"

definition slash_or_dash :: regex where
  "slash_or_dash = OneOf [CChar (CHR ''/''), CChar (CHR ''-'')]"

text \<open>\<open>[A-Za-z]+\s+\d{1,2}(?:st|nd|rd|th)?(?:,\s+\d{4})?|\d{1,2}[/\-]\d{1,2}[/\-]\d{2,4}\<close>.\<close>

definition stay_date :: regex where
  "stay_date =
     alt [seq [letters, spaces, rep_range 1 2 digit, ordinal_suffix,
               Opt (seq [Lit '','', spaces, rep_exact 4 digit])],
          seq [rep_range 1 2 digit, slash_or_dash, rep_range 1 2 digit, slash_or_dash,
               rep_range 2 4 digit]]"

definition space_or_dash_star :: regex where
  "space_or_dash_star = Star (OneOf [CSpace, CChar (CHR ''-'')])"

definition checkInPattern :: regex where
  "checkInPattern =
     seq [alt [Lit ''from'', Lit ''on'', Lit ''starting'',
               seq [Lit ''check'', space_or_dash_star, Lit ''in'']],
          spaces, Group 1 stay_date]"

definition checkOutPattern :: regex where
  "checkOutPattern =
     seq [alt [Lit ''to'', Lit ''until'', Lit ''through'', Lit ''checkout'',
               seq [Lit ''check'', space_or_dash_star, Lit ''out'']],
          spaces, Group 1 stay_date]"

definition adultsPattern :: regex where
  "adultsPattern =
     seq [Group 1 (Plus digit), spaces,
          alt [Lit ''adult'', Lit ''adults'', Lit ''people'', Lit ''guests'']]"

text \<open>The city: the first of the three patterns that matches, its group trimmed.\<close>

definition extractCity :: "string \<Rightarrow> string option" where
  "extractCity msg =
     (case first_match [cityStatePattern, generalLocationPattern, fallbackPattern] msg of
        None \<Rightarrow> None
      | Some m \<Rightarrow> trimmed_group m 1)"

definition extractStayDate :: "regex \<Rightarrow> string \<Rightarrow> string option" where
  "extractStayDate pattern msg =
     (case rx_match pattern msg of None \<Rightarrow> None | Some m \<Rightarrow> trimmed_group m 1)"

text \<open>The number of adults: 1 by default, clamped to 1..9.\<close>

definition extractAdults :: "string \<Rightarrow> int" where
  "extractAdults msg =
     (case rx_match adultsPattern msg of
        None \<Rightarrow> 1
      | Some m \<Rightarrow>
          (let n = digits_value (the (group m 1))
           in if n < 1 then 1 else if n > 9 then 9 else n))"

text \<open>The text of a description that is a string or an object with a \<open>text\<close>.\<close>

definition describe :: "description \<Rightarrow> string \<Rightarrow> string" where
  "describe d dflt =
     (case d of
        DescObject t \<Rightarrow> if truthy t then the t else dflt
      | DescText s \<Rightarrow> s)"

definition present :: "description option \<Rightarrow> bool" where
  "present d = (case d of None \<Rightarrow> False | Some (DescText s) \<Rightarrow> s \<noteq> [] | Some (DescObject _) \<Rightarrow> True)"

text \<open>The lines of the first room offer of a hotel; a \<open>TypeError\<close> without a price.\<close>

definition roomLines :: "room_offer \<Rightarrow> exn + string" where
  "roomLines offer =
     (case room_price offer of
        None \<Rightarrow> Inl (TypeError ''currency'')
      | Some p \<Rightarrow>
          Inr (([CHR 0xF0, CHR 0x9F, CHR 0x92, CHR 0xB0] @ '' Price: '' @ undef (price_currency p) @ '' '' @
                undef (price_total p) @ [CHR 0x0A]) @
               (if present (room_description offer) then
                  [CHR 0xF0, CHR 0x9F, CHR 0x9B, CHR 0x8F, CHR 0xEF, CHR 0xB8, CHR 0x8F] @ '' Room: '' @
                  describe (the (room_description offer)) ''Standard Room'' @ [CHR 0x0A]
                else []) @
               (if present (cancellation_description offer) then
                  [CHR 0xE2, CHR 0x84, CHR 0xB9, CHR 0xEF, CHR 0xB8, CHR 0x8F] @ '' '' @
                  describe (the (cancellation_description offer)) ''See hotel for cancellation policy'' @
                  [CHR 0x0A]
                else [])))"

text \<open>What one round of the loop appends for \<open>hotelOffers[i]\<close>.\<close>

definition hotelBlock :: "nat \<Rightarrow> hotel_offer \<Rightarrow> exn + string" where
  "hotelBlock i ho =
     (let info = hotel ho;
          name = (case info of None \<Rightarrow> None | Some x \<Rightarrow> hotel_name x);
          rate = (case info of None \<Rightarrow> None | Some x \<Rightarrow> rating x);
          cityName = (case info of None \<Rightarrow> None | Some x \<Rightarrow> address_cityName x);
          amen = (case info of None \<Rightarrow> None | Some x \<Rightarrow> amenities x);
          top = (''**'' @ dec (int i + 1) @ ''. '' @ (if truthy name then the name else ''Hotel'') @ ''**'' @
                 [CHR 0x0A]) @
                (if truthy rate then [CHR 0xE2, CHR 0xAD, CHR 0x90] @ '' Rating: '' @ the rate @ ''/5'' @ [CHR 0x0A] else []) @
                (if truthy cityName then [CHR 0xF0, CHR 0x9F, CHR 0x93, CHR 0x8D] @ '' Location: '' @ the cityName @ [CHR 0x0A] else []);
          bottom = (case amen of
                      None \<Rightarrow> []
                    | Some xs \<Rightarrow>
                        if xs = [] then []
                        else [CHR 0xF0, CHR 0x9F, CHR 0x8F, CHR 0xA8] @ '' Amenities: '' @
                             join_comma (map Some (take 3 xs)) @ [CHR 0x0A]) @
                   [CHR 0x0A]
      in case offers ho of
           Some (offer # _) \<Rightarrow>
             (case roomLines offer of Inl e \<Rightarrow> Inl e | Inr ls \<Rightarrow> Inr (top @ ls @ bottom))
         | _ \<Rightarrow> Inr (top @ bottom))"

text \<open>The loop \<open>for (let i = 0; i < maxHotels; i++)\<close>, from index \<open>i\<close> on.\<close>

primrec hotelBlocks :: "nat \<Rightarrow> hotel_offer list \<Rightarrow> exn + string" where
  "hotelBlocks i [] = Inr []"
| "hotelBlocks i (ho # rest) =
     (case hotelBlock i ho of
        Inl e \<Rightarrow> Inl e
      | Inr b \<Rightarrow> (case hotelBlocks (Suc i) rest of Inl e \<Rightarrow> Inl e | Inr bs \<Rightarrow> Inr (b @ bs)))"

text \<open>The reply for a non-empty list of hotel offers (the formatting block of
  \<open>handleHotelIntent\<close>).\<close>

definition formatHotelResponse ::
  "host \<Rightarrow> hotel_offer list \<Rightarrow> string \<Rightarrow> string \<Rightarrow> string \<Rightarrow> int \<Rightarrow> exn + string" where
  "formatHotelResponse h hotelOffers city checkInStr checkOutStr adults =
     (let maxHotels = min 3 (length hotelOffers) in
      case hotelBlocks 0 (take maxHotels hotelOffers) of
        Inl e \<Rightarrow> Inl e
      | Inr blocks \<Rightarrow>
          Inr ((''I found '' @ dec (int (length hotelOffers)) @ '' hotels in '' @ city @ '':'' @
                [CHR 0x0A, CHR 0x0A]) @
               ([CHR 0xF0, CHR 0x9F, CHR 0x97, CHR 0x93, CHR 0xEF, CHR 0xB8, CHR 0x8F] @ '' Check-in: '' @
                toLocaleDateString h (parseDate h checkInStr) @ [CHR 0x0A]) @
               ([CHR 0xF0, CHR 0x9F, CHR 0x97, CHR 0x93, CHR 0xEF, CHR 0xB8, CHR 0x8F] @ '' Check-out: '' @
                toLocaleDateString h (parseDate h checkOutStr) @ [CHR 0x0A]) @
               ([CHR 0xF0, CHR 0x9F, CHR 0x91, CHR 0xA5] @ '' Guests: '' @ dec_int adults @ '' adult'' @
                (if adults > 1 then ''s'' else []) @ [CHR 0x0A, CHR 0x0A]) @
               blocks @
               ''Would you like more details about any of these hotels or to modify your '' @
               ''search criteria?''))"

text \<open>The reply of the inner \<open>catch\<close> of \<open>handleHotelIntent\<close>.\<close>

definition hotelSearchFailed :: "string \<Rightarrow> exn \<Rightarrow> string" where
  "hotelSearchFailed city e =
     (if message_includes e ''Authentication failed'' then
        ''The hotel search service is not properly configured. Please check your A'' @
        ''madeus API credentials.''
      else if message_includes e ''Invalid city code''
              \<or> message_includes e ''Unable to find city code'' then
        ''I couldn'' @ [CHR 0x27] @ ''t find any hotels in '' @ city @
        ''. The city might be misspelled or not available in our database. Could y'' @
        ''ou try a different city or specify the country as well?''
      else
        ''I encountered an issue searching for hotels in '' @ city @ '': '' @
        (if truthy (message e) then the (message e)
         else ''Please try again with more specific details.''))"

text \<open>The reply of the outer \<open>catch\<close>.\<close>

definition hotelHandlerFailed :: "exn \<Rightarrow> string" where
  "hotelHandlerFailed e =
     ''I encountered an issue while searching for hotels: '' @
     (if truthy (message e) then the (message e) else ''Please try again.'')"

definition hotelServiceUnavailable :: string where
  "hotelServiceUnavailable =
     ''I'' @ [CHR 0x27] @
     ''d be happy to help you find hotels, but the hotel search service is curr'' @
     ''ently unavailable. '' @ [CHR 0x0A, CHR 0x0A] @ ''Please ensure:'' @ [CHR 0x0A] @
     ''1. Amadeus API credentials are set in your .env file:'' @ [CHR 0x0A] @
     ''   - AMADEUS_CLIENT_ID=your_client_id'' @ [CHR 0x0A] @
     ''   - AMADEUS_CLIENT_SECRET=your_client_secret'' @ [CHR 0x0A, CHR 0x0A] @
     ''2. The credentials are valid for the Amadeus test environment.'' @ [CHR 0x0A, CHR 0x0A] @
     ''Once configured, I'' @ [CHR 0x27] @
     ''ll be able to search for real hotel options for you.''"

definition askForCity :: string where
  "askForCity =
     ''I'' @ [CHR 0x27] @
     ''d be happy to help you find hotels. Which city are you looking to stay i'' @ ''n?''"

definition noHotelsFound :: "string \<Rightarrow> string" where
  "noHotelsFound city =
     ''I couldn'' @ [CHR 0x27] @ ''t find any available hotels in '' @ city @
     '' for those dates. Would you like to try different dates or a nearby city'' @ ''?''"

text \<open>Check-in: the date given, normalized and parsed again, or else now. An invalid
  check-in stays invalid: \<open>setDate\<close> leaves an invalid date as it is.\<close>

definition checkInOf :: "host \<Rightarrow> string option \<Rightarrow> exn + jsdate" where
  "checkInOf h checkInDate =
     (if truthy checkInDate then
        (case formatDate h (the checkInDate) of Inl e \<Rightarrow> Inl e | Inr s \<Rightarrow> Inr (parseDate h s))
      else Inr (timeClip (now h)))"

text \<open>Check-out: the date given, or else a copy of the check-in; when it is invalid or
  not after the check-in, \<open>checkOut.setDate(checkIn.getDate() + 3)\<close>.\<close>

definition checkOutOf :: "host \<Rightarrow> string option \<Rightarrow> jsdate \<Rightarrow> exn + jsdate" where
  "checkOutOf h checkOutDate checkIn =
     (case (if truthy checkOutDate then
              (case formatDate h (the checkOutDate) of
                 Inl e \<Rightarrow> Inl e | Inr s \<Rightarrow> Inr (parseDate h s))
            else Inr checkIn) of
        Inl e \<Rightarrow> Inl e
      | Inr None \<Rightarrow> Inr None
      | Inr (Some co) \<Rightarrow>
          if date_le (Some co) checkIn then
            (case checkIn of
               None \<Rightarrow> Inr None
             | Some ci \<Rightarrow> Inr (timeClip (setDate h co (getDate h ci + 3))))
          else Inr (Some co))"

definition handleHotelIntent ::
  "world \<Rightarrow> host \<Rightarrow> amadeus \<Rightarrow> message list \<Rightarrow> request list \<Rightarrow> string \<times> request list" where
  "handleHotelIntent w h svc messages tr =
     (case lastUserMessage messages of
        None \<Rightarrow> (''Please provide details about your hotel search.'', tr)
      | Some userMessage \<Rightarrow>
          if \<not> isClientInitialized svc then (hotelServiceUnavailable, tr)
          else
            let msg = content userMessage;
                city = extractCity msg;
                checkInDate = extractStayDate checkInPattern msg;
                checkOutDate = extractStayDate checkOutPattern msg;
                adults = extractAdults msg
            in
            if \<not> truthy city then (askForCity, tr)
            else
              (case getIATACode w svc (the city) tr of
                 (Inl e, tr1) \<Rightarrow> (hotelHandlerFailed e, tr1)
               | (Inr cityCode, tr1) \<Rightarrow>
                   (case checkInOf h checkInDate of
                      Inl e \<Rightarrow> (hotelHandlerFailed e, tr1)
                    | Inr checkIn \<Rightarrow>
                        (case checkOutOf h checkOutDate checkIn of
                           Inl e \<Rightarrow> (hotelHandlerFailed e, tr1)
                         | Inr checkOut \<Rightarrow>
                             (case checkIn of
                                None \<Rightarrow> (hotelHandlerFailed RangeError, tr1)
                              | Some ci \<Rightarrow>
                                  (case checkOut of
                                     None \<Rightarrow> (hotelHandlerFailed RangeError, tr1)
                                   | Some co \<Rightarrow>
                                       if cityCode = [] then
                                         (hotelSearchFailed (the city)
                                            (Error (''Unable to find city code for '' @ the city)),
                                          tr1)
                                       else
                                         (case searchHotels w svc cityCode (isoDate ci)
                                                 (isoDate co) adults 5 tr1 of
                                            (Inl e, tr2) \<Rightarrow>
                                              (hotelSearchFailed (the city)
                                                 (Error (''Hotel search failed: '' @
                                                         or_unknown (message e))), tr2)
                                          | (Inr hotelOffers, tr2) \<Rightarrow>
                                              if hotelOffers = [] then
                                                (noHotelsFound (the city), tr2)
                                              else
                                                (case formatHotelResponse h hotelOffers (the city)
                                                        (isoDate ci) (isoDate co) adults of
                                                   Inl e \<Rightarrow> (hotelSearchFailed (the city) e, tr2)
                                                 | Inr reply \<Rightarrow> (reply, tr2)))))))))"

section \<open>The response orchestrator\<close>

text \<open>The static replies, keyed on the last user message.\<close>

definition getFallbackResponse :: "message list \<Rightarrow> string" where
  "getFallbackResponse messages =
     (let userInput = (case lastUserMessage messages of None \<Rightarrow> [] | Some m \<Rightarrow> content m);
          lowerInput = toLowerCase userInput
      in if str_includes lowerInput ''flight'' then
           ''I'' @ [CHR 0x27] @
           ''d be happy to help you find flights. Please let me know your departure c'' @
           ''ity, destination, and travel dates.''
         else if str_includes lowerInput ''hotel'' then
           ''I can help you find hotels. What city are you visiting and when do you n'' @
           ''eed accommodation?''
         else
           ''I'' @ [CHR 0x27] @
           ''m your travel assistant. I can help you search for flights and hotels. W'' @
           ''hat would you like to explore today?'')"

definition systemMessage :: message where
  "systemMessage =
     \<lparr> role = System,
       content =
         ''You are an intelligent travel assistant with access to real-time flight '' @
         ''and hotel data through Amadeus APIs. '' @ [CHR 0x0A] @
         ''        Help users search for flights, hotels, and plan their trips. '' @ [CHR 0x0A] @
         ''        When users ask about flights or hotels, use the integrated Amade'' @
         ''us API to provide real, current data.'' @ [CHR 0x0A] @
         ''        Be helpful, concise, and accurate. Format responses with markdow'' @
         ''n for clarity.'' \<rparr>"

text \<open>The generic reply of the language model, or the static reply when the call
  fails or returns no text.\<close>

definition generateStandardResponse ::
  "world \<Rightarrow> message list \<Rightarrow> request list \<Rightarrow> string \<times> request list" where
  "generateStandardResponse w messages tr =
     (let req = ChatCompletionsCreate (systemMessage # messages)
      in case chatCompletions w (length tr) req of
           Inl e \<Rightarrow> (getFallbackResponse messages, tr @ [req])
         | Inr None \<Rightarrow> (getFallbackResponse messages, tr @ [req])
         | Inr (Some text) \<Rightarrow>
             (if text = [] then getFallbackResponse messages else text, tr @ [req]))"

definition cannedGreeting :: string where
  "cannedGreeting =
     ''Hello! I'' @ [CHR 0x27] @
     ''m your AI travel assistant. I can help you plan trips, find flights, boo'' @
     ''k hotels, and create amazing itineraries. What would you like to explore'' @ '' today?''"

definition isGreetingPattern :: regex where
  "isGreetingPattern =
     seq [Bol,
          Group 1 (alt [Lit ''hi'', Lit ''hello'', Lit ''hey'', Lit ''greetings'',
                        Lit ''what can you do'', Lit ''help me'', Lit ''how does this work'']),
          Eol]"

definition capabilitiesReply :: string where
  "capabilitiesReply =
     ''I can help you with a variety of travel-related tasks, including:'' @
     [CHR 0x0A, CHR 0x0A] @
     ''1. Flight Search: Find and compare flights based on your preferences for'' @
     '' dates, destinations, and airlines.'' @ [CHR 0x0A, CHR 0x0A] @
     ''2. Hotel Booking: Locate hotels that suit your budget and requirements, '' @
     ''and provide booking information.'' @ [CHR 0x0A, CHR 0x0A] @
     ''3. Trip Planning: Offer suggestions for travel itineraries, including po'' @
     ''pular attractions and activities at your destination.'' @ [CHR 0x0A, CHR 0x0A] @
     ''4. Travel Advice: Provide tips on travel safety, packing, and cultural i'' @
     ''nsights for different regions.'' @ [CHR 0x0A, CHR 0x0A] @
     ''5. Real-Time Updates: Access current data for flights and hotels to ensu'' @
     ''re you have the most accurate information.'' @ [CHR 0x0A, CHR 0x0A] @
     ''Let me know what you need help with, and I'' @ [CHR 0x27] @ ''ll be glad to assist!''"

definition helloReply :: string where
  "helloReply =
     ''Hello! How can I assist you with your travel plans today? Are you lookin'' @
     ''g for flights, hotels, or some travel inspiration?''"

definition bookingReply :: string where
  "bookingReply =
     ''I can help you with flight bookings! To proceed, I'' @ [CHR 0x27] @ ''ll need:'' @
     [CHR 0x0A, CHR 0x0A] @ ''1. First, let'' @ [CHR 0x27] @ ''s search for your flight'' @
     [CHR 0x0A] @ ''2. Select the flight you want to book'' @ [CHR 0x0A] @
     ''3. Provide passenger details'' @ [CHR 0x0A] @ ''4. Confirm and complete the booking'' @
     [CHR 0x0A, CHR 0x0A] @
     ''What route would you like to book? Please provide your departure city, d'' @
     ''estination, and travel date.''"

text \<open>The process-wide configuration: the language-model key, and the adapter.\<close>

record config =
  openaiConfigured :: bool
  amadeusService :: amadeus

text \<open>The stages a turn goes through, in order, beside the reply and the network log.\<close>

datatype stage =
    StaticFallback | FirstTurnGreeting | SmallTalk | Classification
  | FlightHandler | HotelHandler | BookingReply | StandardGeneration

record turn =
  reply :: string
  stages :: "stage list"
  calls :: "request list"

definition dispatch_threshold :: rat where
  "dispatch_threshold = 65 / 100"

definition generateResponse :: "world \<Rightarrow> host \<Rightarrow> config \<Rightarrow> message list \<Rightarrow> turn" where
  "generateResponse w h cfg messages =
     (if \<not> openaiConfigured cfg then
        \<lparr> reply = getFallbackResponse messages, stages = [StaticFallback], calls = [] \<rparr>
      else
        (case lastUserMessage messages of
           None \<Rightarrow> \<lparr> reply = cannedGreeting, stages = [FirstTurnGreeting], calls = [] \<rparr>
         | Some userMessage \<Rightarrow>
             if length messages \<le> 1 then
               \<lparr> reply = cannedGreeting, stages = [FirstTurnGreeting], calls = [] \<rparr>
             else if rx_test isGreetingPattern (trim (content userMessage)) then
               \<lparr> reply = (if str_includes (toLowerCase (content userMessage)) ''what can you do''
                           then capabilitiesReply else helloReply),
                 stages = [SmallTalk], calls = [] \<rparr>
             else
               (case detectTravelIntent (content userMessage) of
                  None \<Rightarrow>
                    (case generateStandardResponse w messages [] of
                       (text, tr) \<Rightarrow>
                         \<lparr> reply = text, stages = [Classification, StandardGeneration],
                           calls = tr \<rparr>)
                | Some travelIntent \<Rightarrow>
                    if confidence travelIntent > dispatch_threshold then
                      (case intentType travelIntent of
                         Flight \<Rightarrow>
                           (case handleFlightIntent w h (amadeusService cfg) messages [] of
                              (text, tr) \<Rightarrow>
                                \<lparr> reply = text, stages = [Classification, FlightHandler],
                                  calls = tr \<rparr>)
                       | Hotel \<Rightarrow>
                           (case handleHotelIntent w h (amadeusService cfg) messages [] of
                              (text, tr) \<Rightarrow>
                                \<lparr> reply = text, stages = [Classification, HotelHandler],
                                  calls = tr \<rparr>)
                       | Booking \<Rightarrow>
                           \<lparr> reply = bookingReply, stages = [Classification, BookingReply],
                             calls = [] \<rparr>
                       | _ \<Rightarrow>
                           (case generateStandardResponse w messages [] of
                              (text, tr) \<Rightarrow>
                                \<lparr> reply = text, stages = [Classification, StandardGeneration],
                                  calls = tr \<rparr>))
                    else
                      (case generateStandardResponse w messages [] of
                         (text, tr) \<Rightarrow>
                           \<lparr> reply = text, stages = [Classification, StandardGeneration],
                             calls = tr \<rparr>))))"


text \<open>The characters of an ISO date.\<close>

definition date_char :: "char \<Rightarrow> bool" where
  "date_char c = (is_digit c \<or> c = CHR ''-'' \<or> c = CHR ''+'')"

section \<open>Example hosts and providers\<close>

definition days_from_civil :: "int \<Rightarrow> int \<Rightarrow> int \<Rightarrow> int" where
  "days_from_civil y0 m d =
     (let y = (if m \<le> 2 then y0 - 1 else y0);
          era = y div 400;
          yoe = y mod 400;
          doy = (153 * (if m > 2 then m - 3 else m + 9) + 2) div 5 + d - 1;
          doe = yoe * 365 + yoe div 4 - yoe div 100 + doy
      in era * 146097 + doe - 719468)"

text \<open>The date-only ISO form \<open>YYYY-MM-DD\<close>, read as UTC midnight.\<close>

definition parse_iso_date :: "string \<Rightarrow> jsdate" where
  "parse_iso_date s =
     (if length s = 10 \<and> s ! 4 = CHR ''-'' \<and> s ! 7 = CHR ''-''
         \<and> list_all is_digit (take 4 s) \<and> list_all is_digit (take 2 (drop 5 s))
         \<and> list_all is_digit (drop 8 s)
         \<and> 1 \<le> digits_value (take 2 (drop 5 s)) \<and> digits_value (take 2 (drop 5 s)) \<le> 12
         \<and> 1 \<le> digits_value (drop 8 s) \<and> digits_value (drop 8 s) \<le> 31
      then Some (86400000 * days_from_civil (digits_value (take 4 s))
                   (digits_value (take 2 (drop 5 s))) (digits_value (drop 8 s)))
      else None)"

text \<open>A host on UTC with the given clock and date parser.\<close>

definition utc_host :: "int \<Rightarrow> (string \<Rightarrow> jsdate) \<Rightarrow> host" where
  "utc_host clock parser =
     \<lparr> now = clock,
       parseDate = parser,
       startOfDay = (\<lambda>t. t - t mod 86400000),
       getDate = (\<lambda>t. snd (snd (civil_from_days (t div 86400000)))),
       setDate = (\<lambda>t d. case civil_from_days (t div 86400000) of
                    (y, m, _) \<Rightarrow> 86400000 * days_from_civil y m d + t mod 86400000),
       getFullYear = (\<lambda>t. fst (civil_from_days (t div 86400000))),
       toLocaleString = (\<lambda>d. case d of None \<Rightarrow> ''Invalid Date'' | Some t \<Rightarrow> isoDate t),
       toLocaleDateString = (\<lambda>d. case d of None \<Rightarrow> ''Invalid Date'' | Some t \<Rightarrow> isoDate t),
       jsonFirstError = (\<lambda>s. None) \<rparr>"

text \<open>Noon UTC of 2 November 2026.\<close>

definition clock_2026_11_02 :: int where
  "clock_2026_11_02 = 86400000 * days_from_civil 2026 11 2 + 43200000"

definition offline :: exn where
  "offline = Exn (Some ''connect ECONNREFUSED'') None"

text \<open>A provider that rejects every call.\<close>

definition offline_world :: world where
  "offline_world =
     \<lparr> flightOffersSearch = (\<lambda>n r. Inl offline),
       flightOffersPricing = (\<lambda>n r. Inl offline),
       flightOrders = (\<lambda>n r. Inl offline),
       hotelsByCity = (\<lambda>n r. Inl offline),
       hotelOffersSearch = (\<lambda>n r. Inl offline),
       pointsOfInterest = (\<lambda>n r. Inl offline),
       locations = (\<lambda>n r. Inl offline),
       chatCompletions = (\<lambda>n r. Inl offline) \<rparr>"

definition priced_offer :: "string \<Rightarrow> flight_offer" where
  "priced_offer t =
     \<lparr> itineraries = None,
       price = Some \<lparr> price_total = Some t, price_grandTotal = None,
                     price_currency = Some ''USD'' \<rparr> \<rparr>"


definition ready :: amadeus where
  "ready = \<lparr> has_client = True, isInitialized = True \<rparr>"

definition unconfigured :: amadeus where
  "unconfigured = \<lparr> has_client = False, isInitialized = False \<rparr>"

text \<open>Words separated by white space.\<close>

primrec split_spaces :: "string \<Rightarrow> string list" where
  "split_spaces [] = [[]]"
| "split_spaces (c # cs) =
     (if is_space c then [] # split_spaces cs
      else (case split_spaces cs of [] \<Rightarrow> [[c]] | w # ws \<Rightarrow> (c # w) # ws))"

definition month_names :: "(string \<times> int) list" where
  "month_names =
     [(''jan'', 1), (''feb'', 2), (''mar'', 3), (''apr'', 4), (''may'', 5), (''jun'', 6),
      (''jul'', 7), (''aug'', 8), (''sep'', 9), (''oct'', 10), (''nov'', 11), (''dec'', 12)]"

text \<open>The legacy form \<open>Month D YYYY\<close> (a word that starts like a month name, a day,
  a four-digit year), read as local midnight.\<close>

definition parse_month_day_year :: "string \<Rightarrow> jsdate" where
  "parse_month_day_year s =
     (case filter (\<lambda>w. w \<noteq> []) (split_spaces s) of
        [mo, d, y] \<Rightarrow>
          (case map_of month_names (toLowerCase (take 3 mo)) of
             None \<Rightarrow> None
           | Some m \<Rightarrow>
               if list_all is_alpha mo \<and> list_all is_digit d \<and> list_all is_digit y
                  \<and> length y = 4 \<and> length d \<le> 2
                  \<and> 1 \<le> digits_value d \<and> digits_value d \<le> 31
               then Some (86400000 * days_from_civil (digits_value y) m (digits_value d))
               else None)
      | _ \<Rightarrow> None)"

text \<open>A date parser that reads the ISO date form and \<open>Month D YYYY\<close>, and rejects every
  other text, as Node's parser rejects an ISO date followed by a second year.\<close>

definition demo_parseDate :: "string \<Rightarrow> jsdate" where
  "demo_parseDate s =
     (case s of
        [] \<Rightarrow> None
      | c # _ \<Rightarrow> if is_alpha c then parse_month_day_year s else parse_iso_date s)"

definition demo_host :: host where
  "demo_host = utc_host clock_2026_11_02 demo_parseDate"

definition configured :: config where
  "configured = \<lparr> openaiConfigured = True, amadeusService = ready \<rparr>"

definition no_llm_key :: config where
  "no_llm_key = \<lparr> openaiConfigured = False, amadeusService = ready \<rparr>"

definition assistant_welcome :: message where
  "assistant_welcome = \<lparr> role = Assistant, content = ''Welcome'' \<rparr>"

definition user_says :: "string \<Rightarrow> message" where
  "user_says s = \<lparr> role = User, content = s \<rparr>"

definition hotel_named :: "string \<Rightarrow> hotel_offer" where
  "hotel_named n =
     \<lparr> hotel = Some \<lparr> hotel_name = Some n, rating = None, address_cityName = None,
                      amenities = None \<rparr>,
       offers = None \<rparr>"

text \<open>A provider that knows one hotel in every city and answers every search for hotel
  offers with the given offers.\<close>

definition hotels_world :: "hotel_offer list \<Rightarrow> world" where
  "hotels_world found =
     offline_world
       \<lparr> hotelsByCity := (\<lambda>n r. Inr (Some [\<lparr> hotelId = Some ''H1'' \<rparr>])),
         hotelOffersSearch := (\<lambda>n r. Inr (Some found)) \<rparr>"

definition bare_offer :: flight_offer where
  "bare_offer = \<lparr> itineraries = None, price = None \<rparr>"

section \<open>Verified properties\<close>

subsection \<open>The provider adapter\<close>

lemma checkInitialization_uninit:
  "\<not> isInitialized svc \<Longrightarrow> checkInitialization svc = Inl (Error not_initialized_message)"
  by (simp add: checkInitialization_def)

text \<open>
  Claim C5. When the provider client state is not initialized, each of
  \<open>searchFlights\<close>, \<open>searchHotels\<close>, \<open>searchPointsOfInterest\<close>, \<open>lookupCity\<close>,
  \<open>confirmFlightPrice\<close> and \<open>createFlightBooking\<close> throws the not-initialized error, and
  the log of network calls is returned as it was: no call is attempted.
\<close>

theorem adapter_fails_fast_when_not_initialized:
  assumes "\<not> isInitialized svc"
  shows "searchFlights w h svc originCode destinationCode departOn returnOn adults cabinClass tr
           = (Inl (Error not_initialized_message), tr)
       \<and> searchHotels w svc cityCode checkInDate checkOutDate adults radius tr
           = (Inl (Error not_initialized_message), tr)
       \<and> searchPointsOfInterest w svc latitude longitude radius tr
           = (Inl (Error not_initialized_message), tr)
       \<and> lookupCity w svc keyword sub tr = (Inl (Error not_initialized_message), tr)
       \<and> confirmFlightPrice w svc flightOffers travelers tr
           = (Inl (Error not_initialized_message), tr)
       \<and> createFlightBooking w svc confirmedOffer travelers contacts remarks tr
           = (Inl (Error not_initialized_message), tr)"
  using checkInitialization_uninit [OF assms]
  by (simp add: searchFlights_def searchHotels_def searchPointsOfInterest_def lookupCity_def
      confirmFlightPrice_def createFlightBooking_def)

theorem adapter_fails_fast_witness:
  "\<not> isInitialized unconfigured
   \<and> searchFlights offline_world (utc_host clock_2026_11_02 parse_iso_date) unconfigured
        ''JFK'' ''LHR'' ''2026-12-01'' None 1 ''ECONOMY'' []
      = (Inl (Error not_initialized_message), [])
   \<and> searchHotels offline_world unconfigured ''PAR'' ''2026-12-01'' ''2026-12-04'' 1 5 []
      = (Inl (Error not_initialized_message), [])
   \<and> searchPointsOfInterest offline_world unconfigured 48 2 5 []
      = (Inl (Error not_initialized_message), [])
   \<and> lookupCity offline_world unconfigured ''Paris'' ''CITY,AIRPORT'' []
      = (Inl (Error not_initialized_message), [])
   \<and> confirmFlightPrice offline_world unconfigured [priced_offer ''500.00''] None []
      = (Inl (Error not_initialized_message), [])
   \<and> createFlightBooking offline_world unconfigured (priced_offer ''500.00'') None None None []
      = (Inl (Error not_initialized_message), [])"
  using adapter_fails_fast_when_not_initialized [where svc = unconfigured and w = offline_world
      and h = "utc_host clock_2026_11_02 parse_iso_date" and originCode = "''JFK''"
      and destinationCode = "''LHR''" and departOn = "''2026-12-01''" and returnOn = None
      and adults = 1 and cabinClass = "''ECONOMY''" and tr = "[]"
      and cityCode = "''PAR''" and checkInDate = "''2026-12-01''"
      and checkOutDate = "''2026-12-04''" and radius = 5
      and latitude = 48 and longitude = 2 and keyword = "''Paris''" and sub = "''CITY,AIRPORT''"
      and flightOffers = "[priced_offer ''500.00'']"
      and confirmedOffer = "priced_offer ''500.00''" and travelers = None and contacts = None
      and remarks = None]
  by (simp add: unconfigured_def)





subsection \<open>Date normalization\<close>

lemma is_digit_digit_char: "is_digit (digit_char n)"
proof -
  have "0 \<le> n mod 10" and "n mod 10 < 10" by simp_all
  then have "(48 + n mod 10) mod 256 = 48 + n mod 10" by simp
  then have "(of_char (char_of (48 + n mod 10) :: char) :: int) = 48 + n mod 10"
    by (simp add: of_char_of)
  then show ?thesis by (simp add: is_digit_def digit_char_def)
qed

lemma dec_digits: "list_all is_digit (dec n)"
proof (induction n rule: dec.induct)
  case (1 n)
  show ?case
  proof (cases "n < 10")
    case True
    then show ?thesis by (simp add: dec.simps [of n] is_digit_digit_char)
  next
    case False
    with 1 show ?thesis by (simp add: dec.simps [of n] is_digit_digit_char)
  qed
qed

lemma digit_date_char: "is_digit c \<Longrightarrow> date_char c"
  by (simp add: date_char_def)

lemma iso_year_chars: "list_all date_char (iso_year y)"
  using dec_digits
  by (auto simp: iso_year_def pad_left_def date_char_def list_all_iff is_digit_def)

lemma iso_year_length: "4 \<le> length (iso_year y)"
  by (auto simp: iso_year_def pad_left_def)

lemma pad2_shape: "\<exists>a b. pad2 n = [a, b] \<and> is_digit a \<and> is_digit b"
  by (simp add: pad2_def is_digit_digit_char)

lemma isoDate_shape:
  "\<exists>y m1 m2 d1 d2. isoDate t = iso_year y @ [CHR ''-'', m1, m2, CHR ''-'', d1, d2]
      \<and> is_digit m1 \<and> is_digit m2 \<and> is_digit d1 \<and> is_digit d2"
proof -
  obtain y m d where c: "civil_from_days (t div 86400000) = (y, m, d)"
    by (cases "civil_from_days (t div 86400000)") auto
  obtain m1 m2 where m: "pad2 m = [m1, m2]" "is_digit m1" "is_digit m2"
    using pad2_shape by blast
  obtain d1 d2 where d: "pad2 d = [d1, d2]" "is_digit d1" "is_digit d2"
    using pad2_shape by blast
  show ?thesis using c m d by (auto simp: isoDate_def)
qed


lemma isoDate_chars: "list_all date_char (isoDate t)"
proof -
  obtain y m1 m2 d1 d2 where "isoDate t = iso_year y @ [CHR ''-'', m1, m2, CHR ''-'', d1, d2]"
      "is_digit m1" "is_digit m2" "is_digit d1" "is_digit d2"
    using isoDate_shape by blast
  then show ?thesis using iso_year_chars [of y] by (simp add: date_char_def)
qed

lemma isoDate_length: "10 \<le> length (isoDate t)"
proof -
  obtain y m1 m2 d1 d2 where "isoDate t = iso_year y @ [CHR ''-'', m1, m2, CHR ''-'', d1, d2]"
    using isoDate_shape by blast
  then show ?thesis using iso_year_length [of y] by simp
qed

lemma isoDate_not_ends_with_year: "\<not> ends_with_year (isoDate t)"
proof -
  obtain y m1 m2 d1 d2 where "isoDate t = iso_year y @ [CHR ''-'', m1, m2, CHR ''-'', d1, d2]"
    using isoDate_shape by blast
  then show ?thesis by (simp add: ends_with_year_def is_digit_def)
qed

lemma date_char_not_alpha: "date_char c \<Longrightarrow> \<not> is_alpha c"
  by (auto simp: date_char_def is_alpha_def is_digit_def is_upper_def is_lower_def)

lemma date_char_not_space: "date_char c \<Longrightarrow> \<not> is_space c"
  by (auto simp: date_char_def is_digit_def is_space_def)

lemma lower_char_alpha: "is_lower (lower_char a) \<Longrightarrow> is_alpha a"
  by (auto simp: lower_char_def is_alpha_def split: if_splits)

lemma ordinal_suffix_alpha: "is_ordinal_suffix a b \<Longrightarrow> is_alpha a"
proof -
  assume "is_ordinal_suffix a b"
  then have "lower_char a \<in> {CHR ''s'', CHR ''n'', CHR ''r'', CHR ''t''}"
    by (auto simp: is_ordinal_suffix_def toLowerCase_def)
  then have "is_lower (lower_char a)" by (auto simp: is_lower_def)
  then show ?thesis by (rule lower_char_alpha)
qed

lemma strip_ordinals_id:
  "list_all (\<lambda>c. \<not> is_alpha c) s \<Longrightarrow> strip_ordinals b s = s"
proof (induction b s rule: strip_ordinals.induct)
  case (3 after_digit a b cs)
  then have "\<not> is_ordinal_suffix a b" using ordinal_suffix_alpha by auto
  with 3 show ?case by simp
qed simp_all

lemma trim_id: "list_all (\<lambda>c. \<not> is_space c) s \<Longrightarrow> trim s = s"
proof -
  assume a: "list_all (\<lambda>c. \<not> is_space c) s"
  have d: "\<And>xs. list_all (\<lambda>c. \<not> is_space c) xs \<Longrightarrow> dropWhile is_space xs = xs"
    by (case_tac xs) auto
  from a have "list_all (\<lambda>c. \<not> is_space c) (rev s)" by (simp add: list_all_iff)
  with a d show ?thesis by (simp add: trim_def)
qed

lemma normalizedDate_iso:
  "normalizedDate h (isoDate t) = isoDate t @ '' '' @ dec_int (getFullYear h (now h))"
proof -
  have "list_all (\<lambda>c. \<not> is_alpha c) (isoDate t)"
    using isoDate_chars [of t] date_char_not_alpha by (auto simp: list_all_iff)
  then have s: "strip_ordinals False (isoDate t) = isoDate t" by (rule strip_ordinals_id)
  have "list_all (\<lambda>c. \<not> is_space c) (isoDate t)"
    using isoDate_chars [of t] date_char_not_space by (auto simp: list_all_iff)
  then have "trim (isoDate t) = isoDate t" by (rule trim_id)
  with s show ?thesis by (simp add: normalizedDate_def isoDate_not_ends_with_year)
qed

lemma isoDate_nonempty: "isoDate t \<noteq> []"
  using isoDate_length [of t] by auto

lemma formatDate_iso:
  assumes "parseDate h (isoDate t @ '' '' @ dec_int (getFullYear h (now h))) = None"
  shows "formatDate h (isoDate t) = tomorrow_or_throw h"
  using assms by (simp add: formatDate_def normalizedDate_iso isoDate_nonempty)

lemma tomorrowIso_shape: "tomorrowIso h = Some tm \<Longrightarrow> \<exists>t. tm = isoDate t"
  by (auto simp: tomorrowIso_def plusDaysIso_def split: option.splits)

lemma formatDate_shape:
  assumes "tomorrowIso h = Some tm"
  shows "\<exists>t. formatDate h dateStr = Inr (isoDate t)"
proof -
  obtain t0 where "tm = isoDate t0" using assms tomorrowIso_shape by blast
  with assms have "tomorrow_or_throw h = Inr (isoDate t0)" by (simp add: tomorrow_or_throw_def)
  then show ?thesis
    by (auto simp: formatDate_def split: option.splits)
qed

text \<open>
  Claim C4, as amended. For every date string that parses to a date strictly before
  today, \<open>formatDate\<close> returns tomorrow's date. \<open>formatDate\<close> always returns a text of
  the form \<open>YYYY-MM-DD\<close>; a second call appends the current year to that text before
  parsing it, so on a host whose date parser rejects an ISO date followed by a year the
  second call returns tomorrow's date: re-normalizing leaves the result unchanged exactly
  when that result is tomorrow's date.
\<close>

theorem formatDate_renormalized:
  assumes "tomorrowIso h = Some tm"
    and "\<forall>t. parseDate h (isoDate t @ '' '' @ dec_int (getFullYear h (now h))) = None"
  shows "(\<forall>t. dateStr \<noteq> [] \<and> parseDate h (normalizedDate h dateStr) = Some t
              \<and> date_lt (Some t) (todayMidnight h) \<longrightarrow> formatDate h dateStr = Inr tm)
       \<and> (\<exists>r. formatDate h dateStr = Inr r \<and> formatDate h r = Inr tm
              \<and> (formatDate h r = formatDate h dateStr \<longleftrightarrow> r = tm))"
proof -
  have tom: "tomorrow_or_throw h = Inr tm" using assms(1) by (simp add: tomorrow_or_throw_def)
  have past: "\<forall>t. dateStr \<noteq> [] \<and> parseDate h (normalizedDate h dateStr) = Some t
              \<and> date_lt (Some t) (todayMidnight h) \<longrightarrow> formatDate h dateStr = Inr tm"
    using tom by (simp add: formatDate_def)
  obtain t where r: "formatDate h dateStr = Inr (isoDate t)"
    using formatDate_shape [OF assms(1)] by blast
  have "formatDate h (isoDate t) = Inr tm"
    using formatDate_iso assms(2) tom by simp
  with r past show ?thesis by auto
qed


lemma demo_host_rejects:
  "parseDate demo_host (isoDate t @ '' '' @ x) = None"
proof -
  obtain c cs where cs: "isoDate t = c # cs"
    using isoDate_nonempty [of t] by (cases "isoDate t") auto
  then have "date_char c" using isoDate_chars [of t] by simp
  then have na: "\<not> is_alpha c" by (rule date_char_not_alpha)
  have "length (isoDate t @ '' '' @ x) \<noteq> 10" using isoDate_length [of t] by simp
  then have "parse_iso_date (isoDate t @ '' '' @ x) = None"
    by (simp only: parse_iso_date_def) simp
  with cs na show ?thesis by (simp add: demo_host_def utc_host_def demo_parseDate_def)
qed

theorem formatDate_renormalized_witness:
  "formatDate demo_host ''June 15th 2020'' = Inr ''2026-11-03''
   \<and> formatDate demo_host ''2026-11-03'' = Inr ''2026-11-03''
   \<and> parseDate demo_host (normalizedDate demo_host ''June 15th 2020'') = Some 1592179200000
   \<and> date_lt (Some 1592179200000) (todayMidnight demo_host)"
proof -
  have tom: "tomorrowIso demo_host = Some ''2026-11-03''" by code_simp
  have rej: "\<forall>t. parseDate demo_host
               (isoDate t @ '' '' @ dec_int (getFullYear demo_host (now demo_host))) = None"
    using demo_host_rejects by blast
  have p: "parseDate demo_host (normalizedDate demo_host ''June 15th 2020'') = Some 1592179200000"
    by code_simp
  have lt: "date_lt (Some 1592179200000) (todayMidnight demo_host)" by code_simp
  have ne: "''June 15th 2020'' \<noteq> []" by simp
  show ?thesis
    using formatDate_renormalized [OF tom rej, of "''June 15th 2020''"] p lt ne by auto
qed

text \<open>On that host a future date does not survive a second normalization.\<close>

theorem formatDate_not_idempotent:
  "formatDate demo_host ''June 15 2027'' = Inr ''2027-06-15''
   \<and> formatDate demo_host ''2027-06-15'' = Inr ''2026-11-03''"
  by code_simp

subsection \<open>The location resolver\<close>

text \<open>
  Claim C2. Location resolution is to return three upper-case letters or fail. With the
  provider not initialized, the name \<open>DC\<close> matches no entry of the table and the
  generated code is not padded: the resolver returns the two-letter text \<open>DC\<close>.
\<close>

theorem getIATACode_short_code:
  "getIATACode offline_world unconfigured ''DC'' [] = (Inr ''DC'', [])
   \<and> \<not> is_location_code ''DC''"
  by code_simp

subsection \<open>The booking controller\<close>






subsection \<open>The intent classifier\<close>




subsection \<open>The intent handlers\<close>







subsection \<open>The response formatter\<close>

text \<open>
  Claim C8. The flight formatter shows five offers and, beyond five, appends the count of
  the remaining ones. The hotel formatter shows three offers and appends no count: for
  five hotels found the reply lists three and goes straight to the closing question.
\<close>

theorem hotel_reply_has_no_remaining_count:
  "handleHotelIntent (hotels_world (map hotel_named [''A'', ''B'', ''C'', ''D'', ''E'']))
       demo_host ready [assistant_welcome, user_says ''hotel in Oslo''] []
     = (''I found 5 hotels in Oslo:'' @
        [CHR 0x0A, CHR 0x0A, CHR 0xF0, CHR 0x9F, CHR 0x97, CHR 0x93, CHR 0xEF, CHR 0xB8, CHR 0x8F] @
        '' Check-in: 2026-11-02'' @
        [CHR 0x0A, CHR 0xF0, CHR 0x9F, CHR 0x97, CHR 0x93, CHR 0xEF, CHR 0xB8, CHR 0x8F] @
        '' Check-out: 2026-11-05'' @ [CHR 0x0A, CHR 0xF0, CHR 0x9F, CHR 0x91, CHR 0xA5] @
        '' Guests: 1 adult'' @ [CHR 0x0A, CHR 0x0A] @ ''**1. A**'' @ [CHR 0x0A, CHR 0x0A] @
        ''**2. B**'' @ [CHR 0x0A, CHR 0x0A] @ ''**3. C**'' @ [CHR 0x0A, CHR 0x0A] @
        ''Would you like more details about any of these hotels or to modify your '' @
        ''search criteria?'',
        [LocationsGet ''Oslo'' ''CITY,AIRPORT'', HotelsByCityGet ''OSL'',
         HotelOffersByIdsGet ''H1'' ''2026-11-02'' ''2026-11-05'' 1])
   \<and> formatFlightResponse demo_host (replicate 7 bare_offer) ''A'' ''B'' ''C''
     = ''I found 7 flight options from A to B on C:'' @ [CHR 0x0A, CHR 0x0A] @
       ''... and 2 more options available.'' @ [CHR 0x0A, CHR 0x0A] @
       ''Would you like to book any of these flights or see more options?''"
  by code_simp

subsection \<open>The response orchestrator\<close>

text \<open>
  Claim C3, as amended. For a conversation of at most one message, \<open>generateResponse\<close>
  makes no network call and runs neither the classifier nor a handler; its reply is the
  canned greeting when the language-model key is configured, and the static fallback
  reply, keyed on the words of the message, when it is not.
\<close>

theorem first_turn_reply:
  assumes "length messages \<le> 1"
  shows "calls (generateResponse w h cfg messages) = []
       \<and> (openaiConfigured cfg
            \<longrightarrow> reply (generateResponse w h cfg messages) = cannedGreeting
                \<and> stages (generateResponse w h cfg messages) = [FirstTurnGreeting])
       \<and> (\<not> openaiConfigured cfg
            \<longrightarrow> reply (generateResponse w h cfg messages) = getFallbackResponse messages
                \<and> stages (generateResponse w h cfg messages) = [StaticFallback])"
  using assms by (simp add: generateResponse_def split: option.splits)

theorem first_turn_reply_witness:
  "length [user_says ''I need a flight from Chicago to Miami on July 15''] \<le> 1
   \<and> reply (generateResponse offline_world demo_host configured
              [user_says ''I need a flight from Chicago to Miami on July 15'']) = cannedGreeting
   \<and> stages (generateResponse offline_world demo_host configured
              [user_says ''I need a flight from Chicago to Miami on July 15''])
       = [FirstTurnGreeting]"
proof -
  have l: "length [user_says ''I need a flight from Chicago to Miami on July 15''] \<le> 1"
    by simp
  have c: "openaiConfigured configured" by (simp add: configured_def)
  show ?thesis
    using first_turn_reply [OF l, of offline_world demo_host configured] c by simp
qed

text \<open>Without the key the first turn is answered from the words of the message.\<close>

theorem first_turn_without_llm_key:
  "reply (generateResponse offline_world demo_host no_llm_key
            [user_says ''I need a flight from Chicago to Miami on July 15''])
     = ''I'' @ [CHR 0x27] @
       ''d be happy to help you find flights. Please let me know your departure c'' @
       ''ity, destination, and travel dates.''
   \<and> reply (generateResponse offline_world demo_host no_llm_key
            [user_says ''I need a flight from Chicago to Miami on July 15'']) \<noteq> cannedGreeting"
  by code_simp






end
